theory Spec2Isabelle
  imports Complex_Main
begin

section \<open>JavaScript numbers\<close>

text \<open>
  A number of the program is an IEEE double.  A computed number is a finite real, an
  infinity with its sign (\<open>Infinite True\<close> is \<open>+Infinity\<close>) or \<open>NaN\<close>, so that what a
  division by zero produces is kept; zero carries no sign.  The operations below are the
  exact ones on these values; the next section rounds their finite results to doubles.
\<close>

datatype number = Finite real | Infinite bool | NaN

text \<open>Truthiness of a number, as tested by \<open>!v\<close>: zero and \<open>NaN\<close> are falsy.\<close>

fun truthy :: "number \<Rightarrow> bool" where
  "truthy (Finite a) = (a \<noteq> 0)"
| "truthy (Infinite s) = True"
| "truthy NaN = False"

fun js_mul :: "number \<Rightarrow> number \<Rightarrow> number" where
  "js_mul (Finite a) (Finite b) = Finite (a * b)"
| "js_mul (Finite a) (Infinite t) = (if a = 0 then NaN else Infinite (t = (0 < a)))"
| "js_mul (Infinite s) (Finite b) = (if b = 0 then NaN else Infinite (s = (0 < b)))"
| "js_mul (Infinite s) (Infinite t) = Infinite (s = t)"
| "js_mul NaN b = NaN"
| "js_mul a NaN = NaN"

fun js_sub :: "number \<Rightarrow> number \<Rightarrow> number" where
  "js_sub (Finite a) (Finite b) = Finite (a - b)"
| "js_sub (Finite a) (Infinite t) = Infinite (\<not> t)"
| "js_sub (Infinite s) (Finite b) = Infinite s"
| "js_sub (Infinite s) (Infinite t) = (if s = t then NaN else Infinite s)"
| "js_sub NaN b = NaN"
| "js_sub a NaN = NaN"

fun js_div :: "number \<Rightarrow> number \<Rightarrow> number" where
  "js_div (Finite a) (Finite b) =
     (if b = 0 then (if a = 0 then NaN else Infinite (0 < a)) else Finite (a / b))"
| "js_div (Finite a) (Infinite t) = Finite 0"
| "js_div (Infinite s) (Finite b) = Infinite (s = (0 \<le> b))"
| "js_div (Infinite s) (Infinite t) = NaN"
| "js_div NaN b = NaN"
| "js_div a NaN = NaN"

text \<open>\<open>Math.ceil\<close>.\<close>

fun js_ceil :: "number \<Rightarrow> number" where
  "js_ceil (Finite a) = Finite (of_int \<lceil>a\<rceil>)"
| "js_ceil (Infinite s) = Infinite s"
| "js_ceil NaN = NaN"

text \<open>The comparison \<open>a <= b\<close>: false as soon as one side is \<open>NaN\<close>.\<close>

fun js_le :: "number \<Rightarrow> number \<Rightarrow> bool" where
  "js_le (Finite a) (Finite b) = (a \<le> b)"
| "js_le (Finite a) (Infinite t) = t"
| "js_le (Infinite s) (Finite b) = (\<not> s)"
| "js_le (Infinite s) (Infinite t) = (s \<longrightarrow> t)"
| "js_le NaN b = False"
| "js_le a NaN = False"

text \<open>
  \<open>Math.min(...xs)\<close> and \<open>Math.max(...xs)\<close> over a spread array: with no argument they
  are \<open>+Infinity\<close> and \<open>-Infinity\<close>.
\<close>

definition Math_min :: "real list \<Rightarrow> number" where
  "Math_min xs = (if xs = [] then Infinite True else Finite (Min (set xs)))"

definition Math_max :: "real list \<Rightarrow> number" where
  "Math_max xs = (if xs = [] then Infinite False else Finite (Max (set xs)))"

text \<open>
  \<open>v.toFixed(d)\<close> returns a string; the model keeps the number that string denotes.  For a
  finite \<open>v\<close> below \<open>10^21\<close> in magnitude it is the nearest multiple of \<open>10^-d\<close>, the
  larger in magnitude on a tie; from \<open>10^21\<close> on, and for \<open>NaN\<close> and the infinities,
  it is \<open>v\<close> itself.
\<close>

fun toFixed :: "nat \<Rightarrow> number \<Rightarrow> number" where
  "toFixed d (Finite a) =
     (if 10 ^ 21 \<le> \<bar>a\<bar> then Finite a
      else Finite (sgn a * of_int \<lfloor>\<bar>a\<bar> * 10 ^ d + 1 / 2\<rfloor> / 10 ^ d))"
| "toFixed d (Infinite s) = Infinite s"
| "toFixed d NaN = NaN"

section \<open>Double precision\<close>

text \<open>
  Every arithmetic operation of the program returns the double nearest to the exact result,
  ties going to the even significand.  \<open>fl z\<close> is that double for a real \<open>z\<close>: the
  multiple of \<open>ulp z\<close> nearest to \<open>z\<close>, where \<open>ulp z\<close> is \<open>2\<close> to the power
  \<open>expo z - 52\<close> and \<open>expo z\<close> is the binary exponent of \<open>z\<close>.  The exponent range is
  not bounded: overflow to an infinity and the subnormal numbers are not modelled.
\<close>

definition rne :: "real \<Rightarrow> int" where
  "rne v =
     (let f = \<lfloor>v\<rfloor>
      in if v - of_int f < 1 / 2 then f
         else if 1 / 2 < v - of_int f then f + 1
         else if even f then f else f + 1)"

definition pow2 :: "int \<Rightarrow> real" where
  "pow2 k = 2 powr of_int k"

definition expo :: "real \<Rightarrow> int" where
  "expo z = \<lfloor>log 2 \<bar>z\<bar>\<rfloor>"

definition ulp :: "real \<Rightarrow> real" where
  "ulp z = pow2 (expo z - 52)"

definition fl :: "real \<Rightarrow> real" where
  "fl z = (if z = 0 then 0 else of_int (rne (z / ulp z)) * ulp z)"

text \<open>The rounded operations on numbers: \<open>a * b\<close>, \<open>a - b\<close> and \<open>a / b\<close> as the
  program computes them.\<close>

fun rounded :: "number \<Rightarrow> number" where
  "rounded (Finite a) = Finite (fl a)"
| "rounded (Infinite s) = Infinite s"
| "rounded NaN = NaN"

definition mul64 :: "number \<Rightarrow> number \<Rightarrow> number" where
  "mul64 a b = rounded (js_mul a b)"

definition sub64 :: "number \<Rightarrow> number \<Rightarrow> number" where
  "sub64 a b = rounded (js_sub a b)"

definition div64 :: "number \<Rightarrow> number \<Rightarrow> number" where
  "div64 a b = rounded (js_div a b)"

section \<open>Data model (types.ts)\<close>

record Point =
  x :: real
  y :: real

record CalibrationData =
  p1 :: "Point option"
  p2 :: "Point option"
  realWorldValueCm :: real

datatype SwatchType = INDIVIDUAL | PANORAMA

datatype ToolMode = IDLE | CALIBRATE | SELECT_WALL

record PanoramaSpecs =
  rollWidthCm :: real
  totalRolls :: real
  designHeightCm :: real

record IndividualRollSpecs =
  widthCm :: real
  lengthM :: real

record AppState =
  roomImage :: "string option"
  swatchImage :: "string option"
  swatchType :: SwatchType
  panoramaSpecs :: PanoramaSpecs
  individualRollSpecs :: IndividualRollSpecs
  calibration :: CalibrationData
  wallMask :: "Point list"
  isRendering :: bool
  renderedResult :: "string option"
  errorMessage :: "string option"

text \<open>
  A thrown value is read through its \<open>message\<close> only.  \<open>Error msg\<close> is a thrown value
  whose message is the string \<open>msg\<close>, and \<open>TypeError\<close> a type error raised by the engine
  (on a property read of \<open>null\<close> or \<open>undefined\<close>, or on a call of something that is not a
  function); its message is the engine's and does not mention the entity.  \<open>Thrown\<close> is a
  thrown value whose message is not a string: no message (\<open>undefined\<close> or \<open>null\<close>, also
  when the thrown value itself is), an array, here of strings, or any other value, which
  has no \<open>includes\<close> method.
\<close>

datatype js_message = NoMessage | ListMessage "string list" | PlainMessage

datatype js_error = Error string | TypeError | Thrown js_message

section \<open>The estimator (App.tsx), in exact arithmetic\<close>

text \<open>
  The estimator with every operation taken exactly, that is, the formulas that the code
  evaluates; the section after this one is the same code with every operation rounded.
\<close>

text \<open>\<open>pixelsPerCm\<close>: \<open>None\<close> is \<open>null\<close>.  A point is an object, hence falsy only when
  \<open>null\<close>; \<open>realWorldValueCm\<close> is falsy when zero.\<close>

definition pixelsPerCm :: "CalibrationData \<Rightarrow> number option" where
  "pixelsPerCm c =
     (case p1 c of
        None \<Rightarrow> None
      | Some a \<Rightarrow>
          (case p2 c of
             None \<Rightarrow> None
           | Some b \<Rightarrow>
               if realWorldValueCm c = 0 then None
               else
                 let dx = x a - x b;
                     dy = y a - y b;
                     pixelDist = sqrt (dx * dx + dy * dy)
                 in Some (js_div (Finite pixelDist) (Finite (realWorldValueCm c)))))"

text \<open>The guard \<open>!pixelsPerCm\<close>: true for \<open>null\<close> and for a falsy number.\<close>

definition falsy_opt :: "number option \<Rightarrow> bool" where
  "falsy_opt v = (case v of None \<Rightarrow> True | Some n \<Rightarrow> \<not> truthy n)"

text \<open>One iteration of the shoelace loop, at index \<open>i\<close>, and the loop over
  \<open>0 \<le> i < length\<close>; both reads are in range, as \<open>j\<close> is taken modulo the length.\<close>

definition shoelaceStep :: "Point list \<Rightarrow> real \<Rightarrow> nat \<Rightarrow> real" where
  "shoelaceStep m acc i =
     (let j = (i + 1) mod length m
      in acc + x (m ! i) * y (m ! j) - x (m ! j) * y (m ! i))"

definition shoelaceLoop :: "Point list \<Rightarrow> real" where
  "shoelaceLoop m = foldl (shoelaceStep m) 0 [0..<length m]"

definition areaNormalized :: "Point list \<Rightarrow> real" where
  "areaNormalized m = \<bar>shoelaceLoop m\<bar> / 2"

definition distCalNormalized :: "Point \<Rightarrow> Point \<Rightarrow> real" where
  "distCalNormalized a b =
     (let dxCal = \<bar>x a - x b\<bar>;
          dyCal = \<bar>y a - y b\<bar>
      in sqrt (dxCal * dxCal + dyCal * dyCal))"

definition cmPerNormalizedUnit :: "Point \<Rightarrow> Point \<Rightarrow> real \<Rightarrow> number" where
  "cmPerNormalizedUnit a b v = js_div (Finite v) (Finite (distCalNormalized a b))"

definition areaM2 :: "Point list \<Rightarrow> number \<Rightarrow> number" where
  "areaM2 m cm =
     (let areaCm2 = js_mul (Finite (areaNormalized m)) (js_mul cm cm)
      in js_div areaCm2 (Finite 10000))"

definition estWidthCm :: "Point list \<Rightarrow> number \<Rightarrow> number" where
  "estWidthCm m cm =
     (let minX = Math_min (map x m);
          maxX = Math_max (map x m)
      in js_mul (js_sub maxX minX) cm)"

definition estHeightCm :: "Point list \<Rightarrow> number \<Rightarrow> number" where
  "estHeightCm m cm =
     (let minY = Math_min (map y m);
          maxY = Math_max (map y m)
      in js_mul (js_sub maxY minY) cm)"

text \<open>The roll count: the \<open>if\<close> on the swatch type, from the wall's width and area.\<close>

definition requiredRolls ::
  "SwatchType \<Rightarrow> PanoramaSpecs \<Rightarrow> IndividualRollSpecs \<Rightarrow> number \<Rightarrow> number \<Rightarrow> number" where
  "requiredRolls t ps rs wCm aM2 =
     (if t = PANORAMA then js_ceil (js_div wCm (Finite (rollWidthCm ps)))
      else
        let rollAreaM2 = (widthCm rs / 100) * lengthM rs
        in js_ceil (js_div (js_mul aM2 (Finite (11 / 10))) (Finite rollAreaM2)))"

record Estimate =
  area :: number
  width :: number
  height :: number
  rolls :: number

text \<open>
  \<open>estimateProject\<close>: \<open>Inr None\<close> is the \<open>null\<close> result, \<open>Inr (Some r)\<close> the result
  object, \<open>Inl e\<close> an exception.  The non-null assertions \<open>p1!\<close> and \<open>p2!\<close> do nothing at
  run time: reading \<open>.x\<close> of \<open>null\<close> throws a \<open>TypeError\<close>.
\<close>

definition estimateProject :: "AppState \<Rightarrow> js_error + Estimate option" where
  "estimateProject s =
     (if falsy_opt (pixelsPerCm (calibration s)) \<or> length (wallMask s) < 3 then Inr None
      else
        (case p1 (calibration s) of
           None \<Rightarrow> Inl TypeError
         | Some a \<Rightarrow>
             (case p2 (calibration s) of
                None \<Rightarrow> Inl TypeError
              | Some b \<Rightarrow>
                  let cm = cmPerNormalizedUnit a b (realWorldValueCm (calibration s));
                      aM2 = areaM2 (wallMask s) cm;
                      wCm = estWidthCm (wallMask s) cm;
                      hCm = estHeightCm (wallMask s) cm;
                      n = requiredRolls (swatchType s) (panoramaSpecs s)
                            (individualRollSpecs s) wCm aM2
                  in Inr (Some \<lparr>area = toFixed 2 aM2, width = toFixed 1 wCm,
                                  height = toFixed 1 hCm, rolls = n\<rparr>))))"

section \<open>The estimator (App.tsx), in double precision\<close>

text \<open>
  The same functions as the program computes them: each product, sum, difference, quotient
  and square root is rounded by \<open>fl\<close>, and the literal \<open>1.1\<close> is the double
  \<open>fl (11 / 10)\<close>.  \<open>Math.sqrt\<close> is taken to be correctly rounded, as IEEE 754 requires
  of the square root.  \<open>Math.abs\<close>, \<open>Math.min\<close>, \<open>Math.max\<close> and \<open>Math.ceil\<close> are
  exact, and \<open>toFixed\<close> prints the decimal nearest to the double it is given.  The
  numbers held in the state are doubles already.
\<close>

definition pixelsPerCm64 :: "CalibrationData \<Rightarrow> number option" where
  "pixelsPerCm64 c =
     (case p1 c of
        None \<Rightarrow> None
      | Some a \<Rightarrow>
          (case p2 c of
             None \<Rightarrow> None
           | Some b \<Rightarrow>
               if realWorldValueCm c = 0 then None
               else
                 let dx = fl (x a - x b);
                     dy = fl (y a - y b);
                     pixelDist = fl (sqrt (fl (fl (dx * dx) + fl (dy * dy))))
                 in Some (div64 (Finite pixelDist) (Finite (realWorldValueCm c)))))"

definition shoelaceStep64 :: "Point list \<Rightarrow> real \<Rightarrow> nat \<Rightarrow> real" where
  "shoelaceStep64 m acc i =
     (let j = (i + 1) mod length m
      in fl (fl (acc + fl (x (m ! i) * y (m ! j))) - fl (x (m ! j) * y (m ! i))))"

definition shoelaceLoop64 :: "Point list \<Rightarrow> real" where
  "shoelaceLoop64 m = foldl (shoelaceStep64 m) 0 [0..<length m]"

definition areaNormalized64 :: "Point list \<Rightarrow> real" where
  "areaNormalized64 m = fl (\<bar>shoelaceLoop64 m\<bar> / 2)"

definition distCalNormalized64 :: "Point \<Rightarrow> Point \<Rightarrow> real" where
  "distCalNormalized64 a b =
     (let dxCal = \<bar>fl (x a - x b)\<bar>;
          dyCal = \<bar>fl (y a - y b)\<bar>
      in fl (sqrt (fl (fl (dxCal * dxCal) + fl (dyCal * dyCal)))))"

definition cmPerNormalizedUnit64 :: "Point \<Rightarrow> Point \<Rightarrow> real \<Rightarrow> number" where
  "cmPerNormalizedUnit64 a b v = div64 (Finite v) (Finite (distCalNormalized64 a b))"

definition areaM2_64 :: "Point list \<Rightarrow> number \<Rightarrow> number" where
  "areaM2_64 m cm =
     (let areaCm2 = mul64 (Finite (areaNormalized64 m)) (mul64 cm cm)
      in div64 areaCm2 (Finite 10000))"

definition estWidthCm64 :: "Point list \<Rightarrow> number \<Rightarrow> number" where
  "estWidthCm64 m cm =
     (let minX = Math_min (map x m);
          maxX = Math_max (map x m)
      in mul64 (sub64 maxX minX) cm)"

definition estHeightCm64 :: "Point list \<Rightarrow> number \<Rightarrow> number" where
  "estHeightCm64 m cm =
     (let minY = Math_min (map y m);
          maxY = Math_max (map y m)
      in mul64 (sub64 maxY minY) cm)"

definition requiredRolls64 ::
  "SwatchType \<Rightarrow> PanoramaSpecs \<Rightarrow> IndividualRollSpecs \<Rightarrow> number \<Rightarrow> number \<Rightarrow> number" where
  "requiredRolls64 t ps rs wCm aM2 =
     (if t = PANORAMA then js_ceil (div64 wCm (Finite (rollWidthCm ps)))
      else
        let rollAreaM2 = fl (fl (widthCm rs / 100) * lengthM rs)
        in js_ceil (div64 (mul64 aM2 (Finite (fl (11 / 10)))) (Finite rollAreaM2)))"

definition estimateProject64 :: "AppState \<Rightarrow> js_error + Estimate option" where
  "estimateProject64 s =
     (if falsy_opt (pixelsPerCm64 (calibration s)) \<or> length (wallMask s) < 3 then Inr None
      else
        (case p1 (calibration s) of
           None \<Rightarrow> Inl TypeError
         | Some a \<Rightarrow>
             (case p2 (calibration s) of
                None \<Rightarrow> Inl TypeError
              | Some b \<Rightarrow>
                  let cm = cmPerNormalizedUnit64 a b (realWorldValueCm (calibration s));
                      aM2 = areaM2_64 (wallMask s) cm;
                      wCm = estWidthCm64 (wallMask s) cm;
                      hCm = estHeightCm64 (wallMask s) cm;
                      n = requiredRolls64 (swatchType s) (panoramaSpecs s)
                            (individualRollSpecs s) wCm aM2
                  in Inr (Some \<lparr>area = toFixed 2 aM2, width = toFixed 1 wCm,
                                  height = toFixed 1 hCm, rolls = n\<rparr>))))"

section \<open>Reference values\<close>

text \<open>The Euclidean distance of the specification, for comparison with
  \<open>distCalNormalized\<close>.\<close>

definition euclideanDistance :: "Point \<Rightarrow> Point \<Rightarrow> real" where
  "euclideanDistance a b = sqrt ((x a - x b)\<^sup>2 + (y a - y b)\<^sup>2)"

text \<open>The state the application starts in (the argument of \<open>useState\<close>).\<close>

definition initialState :: AppState where
  "initialState =
     \<lparr>roomImage = None, swatchImage = None, swatchType = INDIVIDUAL,
      panoramaSpecs = \<lparr>rollWidthCm = 70, totalRolls = 7, designHeightCm = 325\<rparr>,
      individualRollSpecs = \<lparr>widthCm = 53, lengthM = 10\<rparr>,
      calibration = \<lparr>p1 = None, p2 = None, realWorldValueCm = 0\<rparr>,
      wallMask = [], isRendering = False, renderedResult = None, errorMessage = None\<rparr>"

section \<open>Image upload (App.tsx)\<close>

datatype ImageKind = Room | Swatch

text \<open>
  \<open>handleFileUpload\<close>: the first argument is the data URL read from the selected file,
  \<open>None\<close> when no file was selected (the handler returns at once).  The state update is
  the one the reader's \<open>onload\<close> callback makes.
\<close>

definition handleFileUpload :: "string option \<Rightarrow> ImageKind \<Rightarrow> AppState \<Rightarrow> AppState" where
  "handleFileUpload file kind prev =
     (case file of
        None \<Rightarrow> prev
      | Some base64 \<Rightarrow>
          if kind = Room then prev\<lparr>roomImage := Some base64, renderedResult := None\<rparr>
          else prev\<lparr>swatchImage := Some base64, renderedResult := None\<rparr>)"

section \<open>Pointer input (Workspace)\<close>

text \<open>What the handler asks its parent to do: one of the two callbacks, or nothing.\<close>

datatype WorkspaceUpdate =
  CalibrationUpdate CalibrationData | MaskUpdate "Point list" | NoUpdate

text \<open>
  \<open>handleMouseDown\<close>: \<open>ready\<close> says that the canvas and the loaded image are there
  (otherwise the handler returns at once), and \<open>q\<close> is the point \<open>{x, y}\<close> the handler
  computes from the pointer position and the canvas rectangle.  No step of the handler can
  throw: \<open>calibration\<close> is an object, and only its fields can be \<open>null\<close>.
\<close>

definition handleMouseDown ::
  "bool \<Rightarrow> ToolMode \<Rightarrow> CalibrationData \<Rightarrow> Point list \<Rightarrow> Point \<Rightarrow> WorkspaceUpdate" where
  "handleMouseDown ready mode c m q =
     (if \<not> ready then NoUpdate
      else if mode = CALIBRATE then
        (if p1 c = None \<or> (p1 c \<noteq> None \<and> p2 c \<noteq> None)
         then CalibrationUpdate (c\<lparr>p1 := Some q, p2 := None\<rparr>)
         else CalibrationUpdate (c\<lparr>p2 := Some q\<rparr>))
      else if mode = SELECT_WALL then MaskUpdate (m @ [q])
      else NoUpdate)"

text \<open>The two callbacks the application passes to the workspace.\<close>

definition onCalibrationUpdate :: "CalibrationData \<Rightarrow> AppState \<Rightarrow> AppState" where
  "onCalibrationUpdate d prev = prev\<lparr>calibration := d\<rparr>"

definition onMaskUpdate :: "Point list \<Rightarrow> AppState \<Rightarrow> AppState" where
  "onMaskUpdate pts prev = prev\<lparr>wallMask := pts\<rparr>"

text \<open>A pointer-down on the workspace, as wired in the application: the handler runs on
  the calibration and mask of the current state, and its callback updates that state.\<close>

definition pointerDown :: "bool \<Rightarrow> ToolMode \<Rightarrow> Point \<Rightarrow> AppState \<Rightarrow> AppState" where
  "pointerDown ready mode q s =
     (case handleMouseDown ready mode (calibration s) (wallMask s) q of
        CalibrationUpdate d \<Rightarrow> onCalibrationUpdate d s
      | MaskUpdate pts \<Rightarrow> onMaskUpdate pts s
      | NoUpdate \<Rightarrow> s)"

text \<open>The calibration button toggles the mode.\<close>

definition toggleCalibrate :: "ToolMode \<Rightarrow> ToolMode" where
  "toggleCalibrate mode = (if mode = CALIBRATE then IDLE else CALIBRATE)"

section \<open>The compositing call (renderWallpaper)\<close>

text \<open>The part of the service's response the function reads; every field is optional.\<close>

record Blob =
  data :: "string option"












section \<open>Example states\<close>

text \<open>The scenario of the specification: a calibration segment of length \<open>0.1\<close> standing
  for 100 cm, and a rectangular wall of normalized area \<open>0.002\<close>.\<close>

definition scenarioState :: AppState where
  "scenarioState =
     initialState
       \<lparr>calibration := \<lparr>p1 = Some \<lparr>x = 0, y = 0\<rparr>, p2 = Some \<lparr>x = 1 / 10, y = 0\<rparr>,
                         realWorldValueCm = 100\<rparr>,
        wallMask := [\<lparr>x = 0, y = 0\<rparr>, \<lparr>x = 1 / 20, y = 0\<rparr>, \<lparr>x = 1 / 20, y = 1 / 25\<rparr>,
                     \<lparr>x = 0, y = 1 / 25\<rparr>]\<rparr>"

text \<open>A calibration with a negative real-world length, as typed into the number field.\<close>

definition negativeLengthState :: AppState where
  "negativeLengthState =
     initialState
       \<lparr>calibration := \<lparr>p1 = Some \<lparr>x = 0, y = 0\<rparr>, p2 = Some \<lparr>x = 1, y = 0\<rparr>,
                         realWorldValueCm = - 100\<rparr>,
        wallMask := [\<lparr>x = 0, y = 0\<rparr>, \<lparr>x = 1, y = 0\<rparr>, \<lparr>x = 0, y = 1\<rparr>]\<rparr>"

text \<open>Two mural states with the same calibration, roll width and horizontal extent of
  the wall, and different wall areas, wall heights and design heights.\<close>

definition muralStateA :: AppState where
  "muralStateA =
     initialState
       \<lparr>swatchType := PANORAMA,
        calibration := \<lparr>p1 = Some \<lparr>x = 0, y = 0\<rparr>, p2 = Some \<lparr>x = 39 / 1024, y = 0\<rparr>,
                         realWorldValueCm = 210\<rparr>,
        wallMask := [\<lparr>x = 0, y = 0\<rparr>, \<lparr>x = 39 / 1024, y = 0\<rparr>, \<lparr>x = 39 / 1024, y = 1 / 4\<rparr>,
                     \<lparr>x = 0, y = 1 / 4\<rparr>]\<rparr>"

definition muralStateB :: AppState where
  "muralStateB =
     initialState
       \<lparr>swatchType := PANORAMA,
        panoramaSpecs := \<lparr>rollWidthCm = 70, totalRolls = 9, designHeightCm = 280\<rparr>,
        calibration := \<lparr>p1 = Some \<lparr>x = 0, y = 0\<rparr>, p2 = Some \<lparr>x = 39 / 1024, y = 0\<rparr>,
                         realWorldValueCm = 210\<rparr>,
        wallMask := [\<lparr>x = 1 / 4, y = 0\<rparr>, \<lparr>x = 295 / 1024, y = 1 / 8\<rparr>, \<lparr>x = 1 / 4, y = 3 / 4\<rparr>]\<rparr>"

text \<open>A roll one metre wide.\<close>

definition wideRoll :: IndividualRollSpecs where
  "wideRoll = \<lparr>widthCm = 100, lengthM = 10\<rparr>"

text \<open>A triangle clicked at the pixels (284, 55), (231, 426) and (338, 227) of a canvas
  of 800 by 600 pixels; each coordinate is the rounded quotient the handler computes.\<close>

definition triangleMask :: "Point list" where
  "triangleMask =
     [\<lparr>x = fl (284 / 800), y = fl (55 / 600)\<rparr>, \<lparr>x = fl (231 / 800), y = fl (426 / 600)\<rparr>,
      \<lparr>x = fl (338 / 800), y = fl (227 / 600)\<rparr>]"

text \<open>A roll whose width was typed in as a negative number.\<close>

definition negativeWidthRoll :: IndividualRollSpecs where
  "negativeWidthRoll = \<lparr>widthCm = - 53, lengthM = 10\<rparr>"

text \<open>Three pointer positions.\<close>

definition clickA :: Point where "clickA = \<lparr>x = 1 / 4, y = 1 / 4\<rparr>"

definition clickB :: Point where "clickB = \<lparr>x = 1 / 2, y = 1 / 4\<rparr>"

definition clickC :: Point where "clickC = \<lparr>x = 3 / 4, y = 1 / 2\<rparr>"




section \<open>The shoelace sum\<close>

text \<open>The contribution of the edge leaving vertex \<open>i\<close> to the shoelace loop.\<close>

definition edgeTerm :: "Point list \<Rightarrow> nat \<Rightarrow> real" where
  "edgeTerm m i = x (m ! i) * y (m ! ((i + 1) mod length m)) - x (m ! ((i + 1) mod length m)) * y (m ! i)"

section \<open>Facts about the estimator\<close>

lemma distCalNormalized_zero_iff: "distCalNormalized a b = 0 \<longleftrightarrow> x a = x b \<and> y a = y b"
  by (simp add: distCalNormalized_def Let_def sum_squares_eq_zero_iff)

lemma distCalNormalized_euclidean: "distCalNormalized a b = euclideanDistance a b"
  by (simp add: distCalNormalized_def euclideanDistance_def Let_def power2_eq_square)

lemma Point_eq_iff: "(a::Point) = b \<longleftrightarrow> x a = x b \<and> y a = y b"
  by auto

lemma distCalNormalized_pos: "(a::Point) \<noteq> b \<Longrightarrow> 0 < distCalNormalized a b"
proof -
  assume "a \<noteq> b"
  then have "distCalNormalized a b \<noteq> 0"
    by (simp add: distCalNormalized_zero_iff Point_eq_iff)
  moreover have "0 \<le> distCalNormalized a b"
    by (simp add: distCalNormalized_def Let_def)
  ultimately show ?thesis by simp
qed

lemma pixelsPerCm_falsy_iff:
  "falsy_opt (pixelsPerCm c) \<longleftrightarrow>
     p1 c = None \<or> p2 c = None \<or> realWorldValueCm c = 0 \<or> p1 c = p2 c"
  by (auto simp: falsy_opt_def pixelsPerCm_def Let_def sum_squares_eq_zero_iff Point_eq_iff
      split: option.splits)


lemma areaM2_Finite: "areaM2 m (Finite c) = Finite (areaNormalized m * (c * c) / 10000)"
  by (simp add: areaM2_def)

lemma estimateProject_result:
  assumes "p1 (calibration s) = Some a" and "p2 (calibration s) = Some b" and "a \<noteq> b"
    and "realWorldValueCm (calibration s) \<noteq> 0" and "3 \<le> length (wallMask s)"
  shows "estimateProject s =
     Inr (Some
       \<lparr>area = toFixed 2 (areaM2 (wallMask s)
                 (cmPerNormalizedUnit a b (realWorldValueCm (calibration s)))),
        width = toFixed 1 (estWidthCm (wallMask s)
                 (cmPerNormalizedUnit a b (realWorldValueCm (calibration s)))),
        height = toFixed 1 (estHeightCm (wallMask s)
                 (cmPerNormalizedUnit a b (realWorldValueCm (calibration s)))),
        rolls = requiredRolls (swatchType s) (panoramaSpecs s) (individualRollSpecs s)
                 (estWidthCm (wallMask s)
                   (cmPerNormalizedUnit a b (realWorldValueCm (calibration s))))
                 (areaM2 (wallMask s)
                   (cmPerNormalizedUnit a b (realWorldValueCm (calibration s))))\<rparr>)"
proof -
  have "\<not> falsy_opt (pixelsPerCm (calibration s))"
    using assms by (simp add: pixelsPerCm_falsy_iff)
  then show ?thesis
    using assms by (simp add: estimateProject_def Let_def)
qed

section \<open>The example states, evaluated\<close>

lemma sqrt_hundredth: "sqrt (1 / 100) = 1 / 10"
  by (rule real_sqrt_unique) (simp_all add: power2_eq_square)

lemma shoelace_upt3: "[0..<3] = [0, 1, 2]"
  by (simp add: upt_rec)

lemma shoelace_upt4: "[0..<4] = [0, 1, 2, 3]"
  by (simp add: upt_rec)

lemma scenario_dist:
  "distCalNormalized \<lparr>x = 0, y = 0\<rparr> \<lparr>x = 1 / 10, y = 0\<rparr> = 1 / 10"
  by (simp add: distCalNormalized_def Let_def sqrt_hundredth)

lemma scenario_cm:
  "cmPerNormalizedUnit \<lparr>x = 0, y = 0\<rparr> \<lparr>x = 1 / 10, y = 0\<rparr> 100 = Finite 1000"
  by (simp add: cmPerNormalizedUnit_def scenario_dist)

lemma scenario_area:
  "areaNormalized (wallMask scenarioState) = 2 / 1000"
  by (simp add: scenarioState_def areaNormalized_def shoelaceLoop_def shoelaceStep_def
      shoelace_upt4 Let_def)

lemma negative_area:
  "areaNormalized (wallMask negativeLengthState) = 1 / 2"
  by (simp add: negativeLengthState_def areaNormalized_def shoelaceLoop_def shoelaceStep_def
      shoelace_upt3 Let_def)

lemma scenario_result:
  "estimateProject scenarioState =
     Inr (Some \<lparr>area = Finite (1 / 5), width = Finite 50, height = Finite 40,
                 rolls = Finite 1\<rparr>)"
proof -
  have st: "calibration scenarioState =
      \<lparr>p1 = Some \<lparr>x = 0, y = 0\<rparr>, p2 = Some \<lparr>x = 1 / 10, y = 0\<rparr>, realWorldValueCm = 100\<rparr>"
      "length (wallMask scenarioState) = 4"
      "swatchType scenarioState = INDIVIDUAL"
      "individualRollSpecs scenarioState = \<lparr>widthCm = 53, lengthM = 10\<rparr>"
    by (simp_all add: scenarioState_def initialState_def)
  have w: "estWidthCm (wallMask scenarioState) (Finite 1000) = Finite 50"
    by (simp add: estWidthCm_def scenarioState_def Math_min_def Math_max_def)
  have h: "estHeightCm (wallMask scenarioState) (Finite 1000) = Finite 40"
    by (simp add: estHeightCm_def scenarioState_def Math_min_def Math_max_def)
  show ?thesis
    using estimateProject_result [of scenarioState "\<lparr>x = 0, y = 0\<rparr>" "\<lparr>x = 1 / 10, y = 0\<rparr>"]
    by (simp add: st scenario_cm areaM2_Finite scenario_area w h requiredRolls_def)
qed

section \<open>When the estimator returns no result\<close>

text \<open>
  Claim C1, as stated, fails: with a negative \<open>realWorldValueCm\<close>, two distinct calibration
  points and three mask points, the guard \<open>!realWorldValueCm\<close> lets the value through and
  the estimator returns a result (with a negative width and height).
\<close>

theorem estimateProject_negative_length:
  "realWorldValueCm (calibration negativeLengthState) \<le> 0 \<and>
   estimateProject negativeLengthState =
     Inr (Some \<lparr>area = Finite (1 / 2), width = Finite (- 100), height = Finite (- 100),
                 rolls = Finite 1\<rparr>)"
proof -
  have g: "\<not> falsy_opt (pixelsPerCm (calibration negativeLengthState))"
    by (simp add: pixelsPerCm_falsy_iff negativeLengthState_def)
  have d: "distCalNormalized \<lparr>x = 0, y = 0\<rparr> \<lparr>x = 1, y = 0\<rparr> = 1"
    by (simp add: distCalNormalized_def)
  have a: "areaM2 (wallMask negativeLengthState) (Finite (- 100)) = Finite (1 / 2)"
    by (simp add: areaM2_def negative_area)
  have w: "estWidthCm (wallMask negativeLengthState) (Finite (- 100)) = Finite (- 100)"
    by (simp add: estWidthCm_def negativeLengthState_def Math_min_def Math_max_def)
  have h: "estHeightCm (wallMask negativeLengthState) (Finite (- 100)) = Finite (- 100)"
    by (simp add: estHeightCm_def negativeLengthState_def Math_min_def Math_max_def)
  have c: "\<lceil>11 / 106 :: real\<rceil> = 1"
    by (simp add: ceiling_eq_iff)
  have n: "requiredRolls INDIVIDUAL (panoramaSpecs negativeLengthState)
      (individualRollSpecs negativeLengthState) (Finite (- 100)) (Finite (1 / 2)) = Finite 1"
    by (simp add: requiredRolls_def negativeLengthState_def initialState_def c)
  have f: "\<lfloor>101 / 2 :: real\<rfloor> = 50" "\<lfloor>2001 / 2 :: real\<rfloor> = 1000"
    by (simp_all add: floor_eq_iff)
  have t: "toFixed 2 (Finite (1 / 2)) = Finite (1 / 2)" "toFixed 1 (Finite (- 100)) = Finite (- 100)"
    using f by simp_all
  have st: "swatchType negativeLengthState = INDIVIDUAL"
      "calibration negativeLengthState =
         \<lparr>p1 = Some \<lparr>x = 0, y = 0\<rparr>, p2 = Some \<lparr>x = 1, y = 0\<rparr>, realWorldValueCm = - 100\<rparr>"
      "length (wallMask negativeLengthState) = 3"
    by (simp_all add: negativeLengthState_def initialState_def)
  have "estimateProject negativeLengthState =
     Inr (Some \<lparr>area = Finite (1 / 2), width = Finite (- 100), height = Finite (- 100),
                 rolls = Finite 1\<rparr>)"
    using g a w h n
    by (simp add: estimateProject_def st cmPerNormalizedUnit_def d t Let_def)
  then show ?thesis by (simp add: st)
qed

text \<open>
  Claim C1, amended: the estimator returns \<open>null\<close> exactly when \<open>p1\<close> or \<open>p2\<close> is
  \<open>null\<close>, or \<open>realWorldValueCm\<close> is zero, or the two calibration points coincide, or the
  wall mask has fewer than three points; and for no state at all does it throw.
\<close>

theorem estimateProject_no_result_iff:
  "(estimateProject s = Inr None \<longleftrightarrow>
      p1 (calibration s) = None \<or> p2 (calibration s) = None \<or>
      realWorldValueCm (calibration s) = 0 \<or> p1 (calibration s) = p2 (calibration s) \<or>
      length (wallMask s) < 3) \<and>
   (\<forall>e. estimateProject s \<noteq> Inl e)"
  unfolding estimateProject_def
  by (auto simp: pixelsPerCm_falsy_iff Let_def split: option.splits)

theorem estimateProject_no_result_iff_witness:
  "estimateProject initialState = Inr None \<and>
   estimateProject (initialState\<lparr>wallMask := wallMask scenarioState\<rparr>) = Inr None \<and>
   estimateProject (scenarioState\<lparr>wallMask := []\<rparr>) = Inr None \<and>
   estimateProject scenarioState \<noteq> Inr None"
  using estimateProject_no_result_iff [of initialState]
    estimateProject_no_result_iff [of "initialState\<lparr>wallMask := wallMask scenarioState\<rparr>"]
    estimateProject_no_result_iff [of "scenarioState\<lparr>wallMask := []\<rparr>"]
    estimateProject_no_result_iff [of scenarioState]
  by (simp add: initialState_def scenarioState_def)

text \<open>
  Claim C9: whenever the guard of the estimator passes (\<open>pixelsPerCm\<close> is neither
  \<open>null\<close> nor falsy, and the mask has at least three points), both calibration points are
  there and \<open>distCalNormalized\<close> is not zero, so that the scale factor is the finite
  quotient and the estimator returns a result object rather than throwing.
\<close>

theorem estimateProject_guard_safe:
  assumes "\<not> falsy_opt (pixelsPerCm (calibration s))" and "3 \<le> length (wallMask s)"
  shows "\<exists>a b. p1 (calibration s) = Some a \<and> p2 (calibration s) = Some b \<and>
           distCalNormalized a b \<noteq> 0 \<and>
           cmPerNormalizedUnit a b (realWorldValueCm (calibration s)) =
             Finite (realWorldValueCm (calibration s) / distCalNormalized a b) \<and>
           (\<exists>r. estimateProject s = Inr (Some r))"
proof -
  from assms(1) obtain a b where
    ab: "p1 (calibration s) = Some a" "p2 (calibration s) = Some b" and ne: "a \<noteq> b"
    by (auto simp: pixelsPerCm_falsy_iff)
  from ne have d: "distCalNormalized a b \<noteq> 0"
    using distCalNormalized_pos[of a b] by simp
  have cm: "cmPerNormalizedUnit a b (realWorldValueCm (calibration s)) =
      Finite (realWorldValueCm (calibration s) / distCalNormalized a b)"
    using d by (simp add: cmPerNormalizedUnit_def)
  have "\<exists>r. estimateProject s = Inr (Some r)"
    using assms ab by (simp add: estimateProject_def Let_def)
  with ab d cm show ?thesis by blast
qed

theorem estimateProject_guard_safe_witness:
  "\<not> falsy_opt (pixelsPerCm (calibration scenarioState)) \<and>
   3 \<le> length (wallMask scenarioState) \<and>
   (\<exists>a b. p1 (calibration scenarioState) = Some a \<and> p2 (calibration scenarioState) = Some b \<and>
      distCalNormalized a b \<noteq> 0 \<and>
      cmPerNormalizedUnit a b (realWorldValueCm (calibration scenarioState)) =
        Finite (realWorldValueCm (calibration scenarioState) / distCalNormalized a b) \<and>
      (\<exists>r. estimateProject scenarioState = Inr (Some r)))"
proof -
  have g: "\<not> falsy_opt (pixelsPerCm (calibration scenarioState))"
    by (simp add: pixelsPerCm_falsy_iff scenarioState_def)
  have l: "3 \<le> length (wallMask scenarioState)"
    by (simp add: scenarioState_def)
  from estimateProject_guard_safe [OF g l] g l show ?thesis by blast
qed

section \<open>The scale factor\<close>



section \<open>The end-to-end scenario\<close>

text \<open>
  Claim C6, amended: with a calibration segment of normalized length \<open>0.1\<close> standing for
  100 cm the scale factor is 1000 cm per unit; a wall of normalized area \<open>0.002\<close> then has
  \<open>0.002 * 1000^2 = 2000\<close> square centimetres, that is \<open>0.2\<close> square metres, and with
  rolls of 53 cm by 10 m the estimator returns \<open>ceil(0.2 * 1.1 / 5.3) = 1\<close> roll.
\<close>

theorem end_to_end_scenario:
  assumes "p1 (calibration s) = Some a" and "p2 (calibration s) = Some b"
    and "euclideanDistance a b = 1 / 10" and "realWorldValueCm (calibration s) = 100"
    and "areaNormalized (wallMask s) = 2 / 1000" and "3 \<le> length (wallMask s)"
    and "swatchType s = INDIVIDUAL"
    and "individualRollSpecs s = \<lparr>widthCm = 53, lengthM = 10\<rparr>"
  shows "cmPerNormalizedUnit a b (realWorldValueCm (calibration s)) = Finite 1000 \<and>
         areaM2 (wallMask s) (Finite 1000) = Finite (1 / 5) \<and>
         (\<exists>r. estimateProject s = Inr (Some r) \<and> area r = Finite (1 / 5) \<and> rolls r = Finite 1)"
proof -
  have d: "distCalNormalized a b = 1 / 10"
    using assms(3) by (simp add: distCalNormalized_euclidean)
  then have ne: "a \<noteq> b"
    using distCalNormalized_zero_iff [of a b] by auto
  have cm': "cmPerNormalizedUnit a b 100 = Finite 1000"
    by (simp add: cmPerNormalizedUnit_def d)
  then have cm: "cmPerNormalizedUnit a b (realWorldValueCm (calibration s)) = Finite 1000"
    by (simp add: assms(4))
  have ar: "areaM2 (wallMask s) (Finite 1000) = Finite (1 / 5)"
    by (simp add: areaM2_Finite assms(5))
  have n: "requiredRolls INDIVIDUAL (panoramaSpecs s) \<lparr>widthCm = 53, lengthM = 10\<rparr> w
      (Finite (1 / 5)) = Finite 1" for w
    by (simp add: requiredRolls_def)
  have "estimateProject s =
     Inr (Some
       \<lparr>area = Finite (1 / 5),
        width = toFixed 1 (estWidthCm (wallMask s) (Finite 1000)),
        height = toFixed 1 (estHeightCm (wallMask s) (Finite 1000)),
        rolls = Finite 1\<rparr>)"
    using estimateProject_result [OF assms(1) assms(2) ne _ assms(6)]
    by (simp add: cm' ar n assms(4,7,8))
  then have "\<exists>r. estimateProject s = Inr (Some r) \<and> area r = Finite (1 / 5) \<and> rolls r = Finite 1"
    by simp
  with cm ar show ?thesis by blast
qed

theorem end_to_end_scenario_witness:
  "euclideanDistance \<lparr>x = 0, y = 0\<rparr> \<lparr>x = 1 / 10, y = 0\<rparr> = 1 / 10 \<and>
   realWorldValueCm (calibration scenarioState) = 100 \<and>
   areaNormalized (wallMask scenarioState) = 2 / 1000 \<and>
   swatchType scenarioState = INDIVIDUAL \<and>
   individualRollSpecs scenarioState = \<lparr>widthCm = 53, lengthM = 10\<rparr> \<and>
   (\<exists>r. estimateProject scenarioState = Inr (Some r) \<and> area r = Finite (1 / 5) \<and>
      rolls r = Finite 1)"
proof -
  have st: "p1 (calibration scenarioState) = Some \<lparr>x = 0, y = 0\<rparr>"
      "p2 (calibration scenarioState) = Some \<lparr>x = 1 / 10, y = 0\<rparr>"
      "realWorldValueCm (calibration scenarioState) = 100"
      "3 \<le> length (wallMask scenarioState)"
      "swatchType scenarioState = INDIVIDUAL"
      "individualRollSpecs scenarioState = \<lparr>widthCm = 53, lengthM = 10\<rparr>"
    by (simp_all add: scenarioState_def initialState_def)
  have e: "euclideanDistance \<lparr>x = 0, y = 0\<rparr> \<lparr>x = 1 / 10, y = 0\<rparr> = 1 / 10"
    using scenario_dist by (simp add: distCalNormalized_euclidean)
  from end_to_end_scenario [OF st(1,2) e st(3) scenario_area st(4,5,6)]
  show ?thesis using e st scenario_area by simp
qed

text \<open>
  Claim C6, as stated, fails: in the scenario the estimator returns an area of \<open>0.2\<close>
  square metres and one roll, not 200 square metres and 42 rolls
  (\<open>0.002 * 1000^2\<close> is \<open>2000\<close>, not \<open>2,000,000\<close>).
\<close>

theorem end_to_end_scenario_one_roll:
  "euclideanDistance \<lparr>x = 0, y = 0\<rparr> \<lparr>x = 1 / 10, y = 0\<rparr> = 1 / 10 \<and>
   calibration scenarioState =
     \<lparr>p1 = Some \<lparr>x = 0, y = 0\<rparr>, p2 = Some \<lparr>x = 1 / 10, y = 0\<rparr>, realWorldValueCm = 100\<rparr> \<and>
   areaNormalized (wallMask scenarioState) = 2 / 1000 \<and>
   swatchType scenarioState = INDIVIDUAL \<and>
   individualRollSpecs scenarioState = \<lparr>widthCm = 53, lengthM = 10\<rparr> \<and>
   estimateProject scenarioState =
     Inr (Some \<lparr>area = Finite (1 / 5), width = Finite 50, height = Finite 40,
                 rolls = Finite 1\<rparr>) \<and>
   rolls \<lparr>area = Finite (1 / 5), width = Finite 50, height = Finite 40, rolls = Finite 1\<rparr>
     \<noteq> Finite 42"
proof -
  have st: "calibration scenarioState =
      \<lparr>p1 = Some \<lparr>x = 0, y = 0\<rparr>, p2 = Some \<lparr>x = 1 / 10, y = 0\<rparr>, realWorldValueCm = 100\<rparr>"
      "swatchType scenarioState = INDIVIDUAL"
      "individualRollSpecs scenarioState = \<lparr>widthCm = 53, lengthM = 10\<rparr>"
    by (simp_all add: scenarioState_def initialState_def)
  have e: "euclideanDistance \<lparr>x = 0, y = 0\<rparr> \<lparr>x = 1 / 10, y = 0\<rparr> = 1 / 10"
    using scenario_dist by (simp add: distCalNormalized_euclidean)
  from e st scenario_area scenario_result show ?thesis by simp
qed

section \<open>Image upload\<close>

text \<open>
  Claim C10: uploading a room or swatch image sets the corresponding image field and resets
  \<open>renderedResult\<close> to \<open>null\<close>; the other image, the calibration, the wall mask, the
  swatch type, both roll specifications, the error message and the rendering flag are
  unchanged.
\<close>

theorem handleFileUpload_frame:
  "roomImage (handleFileUpload (Some d) k s) = (if k = Room then Some d else roomImage s) \<and>
   swatchImage (handleFileUpload (Some d) k s) = (if k = Swatch then Some d else swatchImage s) \<and>
   renderedResult (handleFileUpload (Some d) k s) = None \<and>
   calibration (handleFileUpload (Some d) k s) = calibration s \<and>
   wallMask (handleFileUpload (Some d) k s) = wallMask s \<and>
   swatchType (handleFileUpload (Some d) k s) = swatchType s \<and>
   panoramaSpecs (handleFileUpload (Some d) k s) = panoramaSpecs s \<and>
   individualRollSpecs (handleFileUpload (Some d) k s) = individualRollSpecs s \<and>
   errorMessage (handleFileUpload (Some d) k s) = errorMessage s \<and>
   isRendering (handleFileUpload (Some d) k s) = isRendering s"
  by (cases k) (simp_all add: handleFileUpload_def)

theorem handleFileUpload_frame_witness:
  "roomImage (handleFileUpload (Some ''data:room'') Room
     (initialState\<lparr>renderedResult := Some ''data:old''\<rparr>)) = Some ''data:room'' \<and>
   swatchImage (handleFileUpload (Some ''data:swatch'') Swatch
     (initialState\<lparr>renderedResult := Some ''data:old''\<rparr>)) = Some ''data:swatch'' \<and>
   renderedResult (handleFileUpload (Some ''data:room'') Room
     (initialState\<lparr>renderedResult := Some ''data:old''\<rparr>)) = None \<and>
   renderedResult (handleFileUpload (Some ''data:swatch'') Swatch
     (initialState\<lparr>renderedResult := Some ''data:old''\<rparr>)) = None"
  using handleFileUpload_frame [of "''data:room''" Room "initialState\<lparr>renderedResult := Some ''data:old''\<rparr>"]
    handleFileUpload_frame [of "''data:swatch''" Swatch "initialState\<lparr>renderedResult := Some ''data:old''\<rparr>"]
  by simp

section \<open>Pointer input in calibration mode\<close>

text \<open>
  Claim C7: in \<open>CALIBRATE\<close> mode a pointer-down at \<open>q\<close> (on a canvas that is there, with
  its image loaded) sets \<open>p1 = q\<close> and clears \<open>p2\<close> when \<open>p1\<close> is \<open>null\<close> or both points
  are set; with exactly \<open>p1\<close> set it keeps \<open>p1\<close> and sets \<open>p2 = q\<close>.  In both cases
  \<open>realWorldValueCm\<close> and every field of the state but the calibration are unchanged, and
  for every calibration the handler ends in a calibration update; it has no failing step.
\<close>

theorem calibrate_pointer_down:
  "(p1 (calibration s) = None \<or> (p1 (calibration s) \<noteq> None \<and> p2 (calibration s) \<noteq> None) \<longrightarrow>
      p1 (calibration (pointerDown True CALIBRATE q s)) = Some q \<and>
      p2 (calibration (pointerDown True CALIBRATE q s)) = None) \<and>
   (p1 (calibration s) \<noteq> None \<and> p2 (calibration s) = None \<longrightarrow>
      p1 (calibration (pointerDown True CALIBRATE q s)) = p1 (calibration s) \<and>
      p2 (calibration (pointerDown True CALIBRATE q s)) = Some q) \<and>
   realWorldValueCm (calibration (pointerDown True CALIBRATE q s)) =
     realWorldValueCm (calibration s) \<and>
   pointerDown True CALIBRATE q s = s\<lparr>calibration := calibration (pointerDown True CALIBRATE q s)\<rparr> \<and>
   (\<exists>c. handleMouseDown True CALIBRATE (calibration s) (wallMask s) q = CalibrationUpdate c)"
  by (auto simp: pointerDown_def handleMouseDown_def onCalibrationUpdate_def)

theorem calibrate_pointer_down_witness:
  "calibration (pointerDown True CALIBRATE clickA initialState) =
     \<lparr>p1 = Some clickA, p2 = None, realWorldValueCm = 0\<rparr> \<and>
   toggleCalibrate (toggleCalibrate CALIBRATE) = CALIBRATE \<and>
   calibration (pointerDown True (toggleCalibrate (toggleCalibrate CALIBRATE)) clickB
       (pointerDown True CALIBRATE clickA initialState)) =
     \<lparr>p1 = Some clickA, p2 = Some clickB, realWorldValueCm = 0\<rparr> \<and>
   calibration (pointerDown True CALIBRATE clickC
       (pointerDown True CALIBRATE clickB (pointerDown True CALIBRATE clickA initialState))) =
     \<lparr>p1 = Some clickC, p2 = None, realWorldValueCm = 0\<rparr>"
proof -
  let ?s1 = "pointerDown True CALIBRATE clickA initialState"
  let ?s2 = "pointerDown True CALIBRATE clickB ?s1"
  let ?s3 = "pointerDown True CALIBRATE clickC ?s2"
  have t: "toggleCalibrate (toggleCalibrate CALIBRATE) = CALIBRATE"
    by (simp add: toggleCalibrate_def)
  have c0: "calibration initialState = \<lparr>p1 = None, p2 = None, realWorldValueCm = 0\<rparr>"
    by (simp add: initialState_def)
  have c1: "calibration ?s1 = \<lparr>p1 = Some clickA, p2 = None, realWorldValueCm = 0\<rparr>"
    using calibrate_pointer_down [of initialState clickA] by (simp add: c0)
  have c2: "calibration ?s2 = \<lparr>p1 = Some clickA, p2 = Some clickB, realWorldValueCm = 0\<rparr>"
    using calibrate_pointer_down [of ?s1 clickB] by (simp add: c1)
  have c3: "calibration ?s3 = \<lparr>p1 = Some clickC, p2 = None, realWorldValueCm = 0\<rparr>"
    using calibrate_pointer_down [of ?s2 clickC] by (simp add: c2)
  from t c1 c2 c3 show ?thesis by simp
qed

section \<open>Rounding to a double\<close>

lemma pow2_pos [simp]: "0 < pow2 k"
  by (simp add: pow2_def)

lemma pow2_nonzero [simp]: "pow2 k \<noteq> 0"
  by (simp add: pow2_def)

lemma pow2_abs [simp]: "\<bar>pow2 k\<bar> = pow2 k"
  by (simp add: pow2_def)

lemma pow2_add: "pow2 (a + b) = pow2 a * pow2 b"
  by (simp add: pow2_def powr_add)

lemma pow2_0 [simp]: "pow2 0 = 1"
  by (simp add: pow2_def)

lemma pow2_nat: "pow2 (int n) = 2 ^ n"
  by (simp add: pow2_def powr_realpow)

lemma pow2_minus: "pow2 (- k) = 1 / pow2 k"
  by (simp add: pow2_def powr_minus field_simps)

lemma pow2_diff: "pow2 (a - b) = pow2 a / pow2 b"
  using pow2_add [of a "- b"] by (simp add: pow2_minus)

lemma pow2_mono: "a \<le> b \<Longrightarrow> pow2 a \<le> pow2 b"
  by (simp add: pow2_def)

lemma pow2_less_iff: "pow2 a < pow2 b \<longleftrightarrow> a < b"
  by (simp add: pow2_def)

lemma pow2_le_iff: "pow2 a \<le> pow2 b \<longleftrightarrow> a \<le> b"
  by (simp add: pow2_def)

lemma expo_eq:
  assumes "pow2 e \<le> \<bar>z\<bar>" and "\<bar>z\<bar> < pow2 (e + 1)"
  shows "expo z = e"
proof -
  from assms(1) have "0 < \<bar>z\<bar>" using pow2_pos [of e] by linarith
  then show ?thesis
    using assms by (simp add: expo_def floor_log_eq_powr_iff pow2_def)
qed

lemma expo_bounds:
  assumes "z \<noteq> 0"
  shows "pow2 (expo z) \<le> \<bar>z\<bar>" and "\<bar>z\<bar> < pow2 (expo z + 1)"
proof -
  from assms have "0 < \<bar>z\<bar>" by simp
  then have "2 powr of_int (expo z) \<le> \<bar>z\<bar> \<and> \<bar>z\<bar> < 2 powr (of_int (expo z) + 1)"
    using floor_log_eq_powr_iff [of "\<bar>z\<bar>" 2 "expo z"] by (simp add: expo_def)
  then show "pow2 (expo z) \<le> \<bar>z\<bar>" and "\<bar>z\<bar> < pow2 (expo z + 1)"
    by (simp_all add: pow2_def)
qed

lemma rne_error: "\<bar>of_int (rne v) - v\<bar> \<le> 1 / 2"
  unfolding rne_def Let_def by (auto simp: abs_le_iff)

lemma rne_of_int [simp]: "rne (of_int n) = n"
  by (simp add: rne_def)

lemma rne_lower: "\<lfloor>v\<rfloor> \<le> rne v"
  by (simp add: rne_def Let_def)

lemma rne_upper: "rne v \<le> \<lfloor>v\<rfloor> + 1"
  by (simp add: rne_def Let_def)

lemma rne_mono:
  assumes "a \<le> b"
  shows "rne a \<le> rne b"
proof (cases "\<lfloor>a\<rfloor> = \<lfloor>b\<rfloor>")
  case True
  with assms show ?thesis
    by (auto simp: rne_def Let_def)
next
  case False
  with assms have "\<lfloor>a\<rfloor> + 1 \<le> \<lfloor>b\<rfloor>"
    using floor_mono [of a b] by simp
  with rne_upper [of a] rne_lower [of b] show ?thesis by linarith
qed

lemma rne_minus: "rne (- v) = - rne v"
proof (cases "v = of_int \<lfloor>v\<rfloor>")
  case True
  then obtain n :: int where "v = of_int n" ..
  then have "- v = of_int (- n)" by simp
  then show ?thesis using \<open>v = of_int n\<close> by (simp only: rne_of_int)
next
  case False
  then have f: "\<lfloor>- v\<rfloor> = - \<lfloor>v\<rfloor> - 1"
    by (simp add: floor_minus ceiling_altdef)
  show ?thesis
    unfolding rne_def Let_def f by (auto simp: algebra_simps)
qed

lemma ulp_pos [simp]: "0 < ulp z"
  by (simp add: ulp_def)

lemma ulp_nonneg [simp]: "0 \<le> ulp z"
  by (rule less_imp_le) simp

lemma fl_0 [simp]: "fl 0 = 0"
  by (simp add: fl_def)

lemma expo_minus [simp]: "expo (- z) = expo z"
  by (simp add: expo_def)

lemma ulp_minus [simp]: "ulp (- z) = ulp z"
  by (simp add: ulp_def)

lemma fl_minus: "fl (- z) = - fl z"
  by (simp add: fl_def rne_minus)

lemma abs_scale:
  assumes "0 < (u::real)"
  shows "\<bar>a - z / u\<bar> * u = \<bar>a * u - z\<bar>"
proof -
  from assms have "(a - z / u) * u = a * u - z"
    by (simp add: field_simps)
  then have "\<bar>a * u - z\<bar> = \<bar>a - z / u\<bar> * \<bar>u\<bar>"
    by (simp only: abs_mult [symmetric])
  with assms show ?thesis by simp
qed

lemma fl_error_ulp: "\<bar>fl z - z\<bar> \<le> ulp z / 2"
proof (cases "z = 0")
  case True
  then show ?thesis by simp
next
  case False
  have "\<bar>of_int (rne (z / ulp z)) - z / ulp z\<bar> * ulp z \<le> 1 / 2 * ulp z"
    by (rule mult_right_mono [OF rne_error]) simp
  moreover have "\<bar>of_int (rne (z / ulp z)) - z / ulp z\<bar> * ulp z = \<bar>fl z - z\<bar>"
    using False by (simp add: fl_def abs_scale)
  ultimately show ?thesis by simp
qed

lemma ulp_le: "z \<noteq> 0 \<Longrightarrow> ulp z \<le> \<bar>z\<bar> / 2 ^ 52"
  using expo_bounds(1) [of z] pow2_nat [of 52]
  by (simp add: ulp_def pow2_diff field_simps)

lemma fl_error: "\<bar>fl z - z\<bar> \<le> \<bar>z\<bar> / 2 ^ 53"
proof (cases "z = 0")
  case True
  then show ?thesis by simp
next
  case False
  from ulp_le [OF False] fl_error_ulp [of z] show ?thesis by simp
qed

lemma fl_eval:
  assumes "pow2 e \<le> \<bar>z\<bar>" and "\<bar>z\<bar> < pow2 (e + 1)"
  shows "fl z = of_int (rne (z / pow2 (e - 52))) * pow2 (e - 52)"
proof -
  from assms(1) have "0 < \<bar>z\<bar>" using pow2_pos [of e] by linarith
  then have "z \<noteq> 0" by simp
  with expo_eq [OF assms] show ?thesis by (simp add: fl_def ulp_def)
qed

lemma pow2_numeral: "pow2 (numeral n) = 2 ^ numeral n"
  using pow2_nat [of "numeral n"] by simp

lemma pow2_neg_numeral: "pow2 (- numeral n) = 1 / 2 ^ numeral n"
  by (simp add: pow2_minus pow2_numeral)

lemma pow2_1: "pow2 1 = 2"
  using pow2_nat [of 1] by simp

lemma mant_bounds:
  assumes "0 < z"
  shows "2 ^ 52 \<le> rne (z / ulp z)" and "rne (z / ulp z) \<le> 2 ^ 53"
proof -
  define P :: real where "P = 2 ^ 52"
  define Q :: real where "Q = 2 ^ 53"
  from assms have nz: "z \<noteq> 0" by simp
  have u: "P * ulp z = pow2 (expo z)"
    using pow2_add [of "expo z - 52" 52] by (simp add: ulp_def pow2_numeral P_def ac_simps)
  have u': "Q * ulp z = pow2 (expo z + 1)"
    using pow2_add [of "expo z - 52" 53] by (simp add: ulp_def pow2_numeral Q_def ac_simps)
  from expo_bounds(1) [OF nz] assms have "P * ulp z \<le> z"
    by (simp only: u abs_of_pos)
  then have "P \<le> z / ulp z"
    by (simp add: le_divide_eq)
  then have "of_int (2 ^ 52) \<le> z / ulp z"
    by (simp add: P_def)
  then have "rne (of_int (2 ^ 52)) \<le> rne (z / ulp z)"
    by (rule rne_mono)
  then show "2 ^ 52 \<le> rne (z / ulp z)"
    by (simp only: rne_of_int)
  from expo_bounds(2) [OF nz] assms have "z \<le> Q * ulp z"
    by (simp only: u' abs_of_pos)
  then have "z / ulp z \<le> Q"
    by (simp add: divide_le_eq)
  then have "z / ulp z \<le> of_int (2 ^ 53)"
    by (simp add: Q_def)
  then have "rne (z / ulp z) \<le> rne (of_int (2 ^ 53))"
    by (rule rne_mono)
  then show "rne (z / ulp z) \<le> 2 ^ 53"
    by (simp only: rne_of_int)
qed

lemma fl_range:
  assumes "0 < z"
  shows "pow2 (expo z) \<le> fl z" and "fl z \<le> pow2 (expo z + 1)"
proof -
  define P :: real where "P = 2 ^ 52"
  define Q :: real where "Q = 2 ^ 53"
  from assms have nz: "z \<noteq> 0" by simp
  have u: "P * ulp z = pow2 (expo z)"
    using pow2_add [of "expo z - 52" 52] by (simp add: ulp_def pow2_numeral P_def ac_simps)
  have u': "Q * ulp z = pow2 (expo z + 1)"
    using pow2_add [of "expo z - 52" 53] by (simp add: ulp_def pow2_numeral Q_def ac_simps)
  have f: "fl z = of_int (rne (z / ulp z)) * ulp z"
    using nz by (simp add: fl_def)
  from mant_bounds(1) [OF assms] have "of_int (2 ^ 52) \<le> (of_int (rne (z / ulp z)) :: real)"
    by (simp only: of_int_le_iff)
  then have "P \<le> of_int (rne (z / ulp z))"
    by (simp add: P_def)
  then have "P * ulp z \<le> of_int (rne (z / ulp z)) * ulp z"
    by (rule mult_right_mono) simp
  then show "pow2 (expo z) \<le> fl z"
    by (simp only: f u)
  from mant_bounds(2) [OF assms] have "(of_int (rne (z / ulp z)) :: real) \<le> of_int (2 ^ 53)"
    by (simp only: of_int_le_iff)
  then have "of_int (rne (z / ulp z)) \<le> Q"
    by (simp add: Q_def)
  then have "of_int (rne (z / ulp z)) * ulp z \<le> Q * ulp z"
    by (rule mult_right_mono) simp
  then show "fl z \<le> pow2 (expo z + 1)"
    by (simp only: f u')
qed

lemma fl_pos: "0 < z \<Longrightarrow> 0 < fl z"
  using fl_range(1) [of z] pow2_pos [of "expo z"] by linarith

lemma fl_neg: "z < 0 \<Longrightarrow> fl z < 0"
  using fl_pos [of "- z"] by (simp add: fl_minus)

lemma fl_zero_iff: "fl z = 0 \<longleftrightarrow> z = 0"
  using fl_pos [of z] fl_neg [of z] by (cases "z = 0") (auto simp: neq_iff)

lemma expo_mono:
  assumes "0 < a" and "a \<le> b"
  shows "expo a \<le> expo b"
proof -
  from assms have "log 2 \<bar>a\<bar> \<le> log 2 \<bar>b\<bar>" by simp
  then show ?thesis unfolding expo_def by (rule floor_mono)
qed

lemma fl_mono_pos:
  assumes "0 < a" and "a \<le> b"
  shows "fl a \<le> fl b"
proof (cases "expo a = expo b")
  case True
  then have u: "ulp a = ulp b" by (simp add: ulp_def)
  from assms have "a / ulp b \<le> b / ulp b"
    by (simp add: divide_right_mono)
  then have "rne (a / ulp b) \<le> rne (b / ulp b)" by (rule rne_mono)
  then have "of_int (rne (a / ulp b)) * ulp b \<le> of_int (rne (b / ulp b)) * ulp b"
    by (intro mult_right_mono) simp_all
  with assms show ?thesis by (simp add: fl_def u)
next
  case False
  with expo_mono [OF assms] have "expo a + 1 \<le> expo b" by simp
  then have "pow2 (expo a + 1) \<le> pow2 (expo b)" by (rule pow2_mono)
  moreover from assms have "0 < b" by simp
  ultimately show ?thesis
    using fl_range(2) [OF assms(1)] fl_range(1) [of b] by linarith
qed

lemma fl_mono:
  assumes "a \<le> b"
  shows "fl a \<le> fl b"
proof -
  consider "0 < a" | "b < 0" | "a \<le> 0" "0 \<le> b" by linarith
  then show ?thesis
  proof cases
    case 1
    from 1 assms show ?thesis by (rule fl_mono_pos)
  next
    case 2
    with assms have "fl (- b) \<le> fl (- a)" by (intro fl_mono_pos) simp_all
    then show ?thesis by (simp add: fl_minus)
  next
    case 3
    have "fl a \<le> 0" using 3(1) fl_neg [of a] by (cases "a = 0") auto
    moreover have "0 \<le> fl b" using 3(2) fl_pos [of b] by (cases "b = 0") auto
    ultimately show ?thesis by simp
  qed
qed

lemma fl_repr:
  assumes "\<bar>m\<bar> < 2 ^ 53"
  shows "fl (of_int m * pow2 j) = of_int m * pow2 j"
proof (cases "m = 0")
  case True
  then show ?thesis by simp
next
  case False
  let ?z = "of_int m * pow2 j"
  have nz: "?z \<noteq> 0" using False by simp
  have "\<bar>?z\<bar> = of_int \<bar>m\<bar> * pow2 j"
    by (simp add: abs_mult)
  also have "\<dots> < 2 ^ 53 * pow2 j"
  proof (rule mult_strict_right_mono)
    from assms show "real_of_int \<bar>m\<bar> < 2 ^ 53"
      by (metis of_int_less_iff of_int_numeral of_int_power)
  qed simp
  also have "\<dots> = pow2 (j + 53)"
    using pow2_add [of j 53] by (simp add: pow2_numeral)
  finally have "pow2 (expo ?z) < pow2 (j + 53)"
    using expo_bounds(1) [OF nz] by linarith
  then have k: "0 \<le> j - expo ?z + 52"
    by (simp add: pow2_less_iff)
  define k where "k = nat (j - expo ?z + 52)"
  have jk: "j = (expo ?z - 52) + int k"
    using k by (simp add: k_def)
  define U where "U = ulp ?z"
  have U: "0 < U" by (simp add: U_def)
  have pj: "pow2 j = U * 2 ^ k"
    using pow2_add [of "expo ?z - 52" "int k"] jk by (simp add: U_def ulp_def pow2_nat)
  have q: "of_int m * (U * 2 ^ k) / U = of_int (m * 2 ^ k)"
    using U by simp
  from pj have "of_int m * pow2 j / U = of_int m * (U * 2 ^ k) / U"
    by (rule arg_cong [where f = "\<lambda>t. of_int m * t / U"])
  with q have zq: "?z / ulp ?z = of_int (m * 2 ^ k)"
    by (simp only: U_def)
  have "fl ?z = of_int (rne (?z / ulp ?z)) * ulp ?z"
    using nz by (simp add: fl_def)
  also have "\<dots> = of_int (m * 2 ^ k) * U"
    by (simp only: zq rne_of_int U_def)
  also have "\<dots> = of_int m * (U * 2 ^ k)"
    by simp
  finally show ?thesis by (simp only: pj)
qed

lemma fl_idem [simp]: "fl (fl z) = fl z"
proof -
  have pos: "fl (fl z) = fl z" if "0 < z" for z
  proof (cases "rne (z / ulp z) = 2 ^ 53")
    case True
    have "fl z = of_int 1 * pow2 (expo z + 1)"
      using that True pow2_add [of "expo z - 52" 53]
      by (simp add: fl_def ulp_def pow2_numeral ac_simps)
    moreover have "fl (of_int 1 * pow2 (expo z + 1)) = of_int 1 * pow2 (expo z + 1)"
      by (rule fl_repr) simp
    ultimately show ?thesis by simp
  next
    case False
    with mant_bounds [OF that] have "\<bar>rne (z / ulp z)\<bar> < 2 ^ 53" by simp
    then have "fl (of_int (rne (z / ulp z)) * pow2 (expo z - 52)) =
        of_int (rne (z / ulp z)) * pow2 (expo z - 52)"
      by (rule fl_repr)
    with that show ?thesis by (simp add: fl_def ulp_def)
  qed
  consider "0 < z" | "z = 0" | "z < 0" by linarith
  then show ?thesis
  proof cases
    case 1
    then show ?thesis by (rule pos)
  next
    case 2
    then show ?thesis by simp
  next
    case 3
    then have "fl (fl (- z)) = fl (- z)" by (intro pos) simp
    then show ?thesis by (simp add: fl_minus)
  qed
qed

lemma fl_of_int: "\<bar>m\<bar> < 2 ^ 53 \<Longrightarrow> fl (of_int m) = of_int m"
  using fl_repr [of m 0] by simp

lemma pow2_m1: "pow2 (- 1) = 1 / 2"
  by (simp add: pow2_minus pow2_1)

lemmas fl_eval_simps = pow2_numeral pow2_neg_numeral pow2_1 pow2_m1 rne_def Let_def

lemma fl_nonneg: "0 \<le> z \<Longrightarrow> 0 \<le> fl z"
  using fl_mono [of 0 z] by simp

text \<open>The doubles that occur in the examples.\<close>

lemma fl_at_1: "fl (39 / 1024) = 39 / 1024"
  by (subst fl_eval [where e = "- 5"]) (simp_all add: fl_eval_simps)

lemma fl_at_2: "fl (1521 / 1048576) = 1521 / 1048576"
  by (subst fl_eval [where e = "- 10"]) (simp_all add: fl_eval_simps)

lemma fl_at_3: "fl (71680 / 13) = 3031268979960911 / 549755813888"
  by (subst fl_eval [where e = "12"]) (simp_all add: fl_eval_simps)

lemma fl_at_4: "fl (118219490218475529 / 562949953421312) = 7388718138654721 / 35184372088832"
  by (subst fl_eval [where e = "7"]) (simp_all add: fl_eval_simps)

lemma fl_at_5: "fl (7388718138654721 / 2462906046218240) = 6755399441055745 / 2251799813685248"
  by (subst fl_eval [where e = "1"]) (simp_all add: fl_eval_simps)

lemma fl_at_6: "fl (13 / 71680) = 836382787940235 / 4611686018427387904"
  by (subst fl_eval [where e = "- 13"]) (simp_all add: fl_eval_simps)

lemma fl_at_7: "fl (39 / 4096) = 39 / 4096"
  by (subst fl_eval [where e = "- 7"]) (simp_all add: fl_eval_simps)

lemma fl_at_8: "fl (39 / 2048) = 39 / 2048"
  by (subst fl_eval [where e = "- 6"]) (simp_all add: fl_eval_simps)

lemma fl_at_9: "fl (1 / 32) = 1 / 32"
  by (subst fl_eval [where e = "- 5"]) (simp_all add: fl_eval_simps)

lemma fl_at_10: "fl (885 / 4096) = 885 / 4096"
  by (subst fl_eval [where e = "- 3"]) (simp_all add: fl_eval_simps)

lemma fl_at_11: "fl (1013 / 4096) = 1013 / 4096"
  by (subst fl_eval [where e = "- 3"]) (simp_all add: fl_eval_simps)

lemma fl_at_12: "fl (3 / 16) = 3 / 16"
  by (subst fl_eval [where e = "- 3"]) (simp_all add: fl_eval_simps)

lemma fl_at_13: "fl (117 / 4096) = 117 / 4096"
  by (subst fl_eval [where e = "- 6"]) (simp_all add: fl_eval_simps)

lemma fl_at_14: "fl (117 / 8192) = 117 / 8192"
  by (subst fl_eval [where e = "- 7"]) (simp_all add: fl_eval_simps)

lemma fl_at_15: "fl (11 / 10) = 2476979795053773 / 2251799813685248"
  by (subst fl_eval [where e = "0"]) (simp_all add: fl_eval_simps)

lemma fl_at_16: "fl 1 = 1"
  by (subst fl_eval [where e = "0"]) (simp_all add: fl_eval_simps)

lemma fl_at_17: "fl 10 = 10"
  by (subst fl_eval [where e = "3"]) (simp_all add: fl_eval_simps)

lemma fl_at_18: "fl (61924494876344325 / 562949953421312) = 7740561859543041 / 70368744177664"
  by (subst fl_eval [where e = "6"]) (simp_all add: fl_eval_simps)

lemma fl_at_19: "fl (7740561859543041 / 703687441776640) = 6192449487634433 / 562949953421312"
  by (subst fl_eval [where e = "3"]) (simp_all add: fl_eval_simps)

lemma fl_at_20: "fl (61924494876344325 / 281474976710656) = 7740561859543041 / 35184372088832"
  by (subst fl_eval [where e = "7"]) (simp_all add: fl_eval_simps)

lemma fl_at_21: "fl (7740561859543041 / 351843720888320) = 6192449487634433 / 281474976710656"
  by (subst fl_eval [where e = "4"]) (simp_all add: fl_eval_simps)

lemma fl_at_22: "fl (53 / 100) = 2386907802506363 / 4503599627370496"
  by (subst fl_eval [where e = "- 1"]) (simp_all add: fl_eval_simps)

lemma fl_at_23: "fl (11934539012531815 / 2251799813685248) = 1491817376566477 / 281474976710656"
  by (subst fl_eval [where e = "2"]) (simp_all add: fl_eval_simps)

lemma fl_at_24: "fl (12384898975268865 / 1125899906842624) = 11"
  by (subst fl_eval [where e = "3"]) (simp_all add: fl_eval_simps)

lemma fl_at_25: "fl (3096224743817216 / 1491817376566477) = 4673546783120325 / 2251799813685248"
  by (subst fl_eval [where e = "1"]) (simp_all add: fl_eval_simps)

lemma fl_at_26: "fl (2814749767106560 / 1491817376566477) = 8497357787491501 / 4503599627370496"
  by (subst fl_eval [where e = "0"]) (simp_all add: fl_eval_simps)

lemma fl_at_27: "fl (71 / 200) = 799388933858263 / 2251799813685248"
  by (subst fl_eval [where e = "- 2"]) (simp_all add: fl_eval_simps)

lemma fl_at_28: "fl (11 / 120) = 6605279453476727 / 72057594037927936"
  by (subst fl_eval [where e = "- 4"]) (simp_all add: fl_eval_simps)

lemma fl_at_29: "fl (231 / 800) = 5201657569612923 / 18014398509481984"
  by (subst fl_eval [where e = "- 2"]) (simp_all add: fl_eval_simps)

lemma fl_at_30: "fl (71 / 100) = 799388933858263 / 1125899906842624"
  by (subst fl_eval [where e = "- 1"]) (simp_all add: fl_eval_simps)

lemma fl_at_31: "fl (169 / 400) = 3805541685128069 / 9007199254740992"
  by (subst fl_eval [where e = "- 2"]) (simp_all add: fl_eval_simps)

lemma fl_at_32: "fl (227 / 600) = 6815447436087351 / 18014398509481984"
  by (subst fl_eval [where e = "- 2"]) (simp_all add: fl_eval_simps)

lemma fl_at_33: "fl (639022667575050377343373377169 / 2535301200456458802993406410752) = 2270264572157467 / 9007199254740992"
  by (subst fl_eval [where e = "- 2"]) (simp_all add: fl_eval_simps)

lemma fl_at_34: "fl (2270264572157467 / 9007199254740992) = 2270264572157467 / 9007199254740992"
  by (subst fl_eval [where e = "- 2"]) (simp_all add: fl_eval_simps)

lemma fl_at_35: "fl (34358401868585928063359978943021 / 1298074214633706907132624082305024) = 1907274442191405 / 72057594037927936"
  by (subst fl_eval [where e = "- 6"]) (simp_all add: fl_eval_simps)

lemma fl_at_36: "fl (16254842135068331 / 72057594037927936) = 4063710533767083 / 18014398509481984"
  by (subst fl_eval [where e = "- 3"]) (simp_all add: fl_eval_simps)

lemma fl_at_37: "fl (35451623746222757563178686436973 / 324518553658426726783156020576256) = 7871841788680891 / 72057594037927936"
  by (subst fl_eval [where e = "- 4"]) (simp_all add: fl_eval_simps)

lemma fl_at_38: "fl (24126683923749223 / 72057594037927936) = 3015835490468653 / 9007199254740992"
  by (subst fl_eval [where e = "- 2"]) (simp_all add: fl_eval_simps)

lemma fl_at_39: "fl (3042107910427704669563448884147 / 10141204801825835211973625643008) = 2701934596440929 / 9007199254740992"
  by (subst fl_eval [where e = "- 2"]) (simp_all add: fl_eval_simps)

lemma fl_at_40: "fl (78475223506931 / 2251799813685248) = 78475223506931 / 2251799813685248"
  by (subst fl_eval [where e = "- 5"]) (simp_all add: fl_eval_simps)

lemma fl_at_41: "fl (25136666302125634310192305950163 / 649037107316853453566312041152512) = 2790730569093917 / 72057594037927936"
  by (subst fl_eval [where e = "- 5"]) (simp_all add: fl_eval_simps)

lemma fl_at_42: "fl (5301937721315709 / 72057594037927936) = 5301937721315709 / 72057594037927936"
  by (subst fl_eval [where e = "- 4"]) (simp_all add: fl_eval_simps)

lemma fl_at_43: "fl (5448193259700899573525121131313 / 40564819207303340847894502572032) = 4838967679622019 / 36028797018963968"
  by (subst fl_eval [where e = "- 3"]) (simp_all add: fl_eval_simps)

lemma fl_at_44: "fl (4375997637928329 / 72057594037927936) = 4375997637928329 / 72057594037927936"
  by (subst fl_eval [where e = "- 5"]) (simp_all add: fl_eval_simps)

lemma fl_at_45: "fl (4375997637928329 / 144115188075855872) = 4375997637928329 / 144115188075855872"
  by (subst fl_eval [where e = "- 6"]) (simp_all add: fl_eval_simps)

lemma fl_at_46: "fl (7871841788680891 / 72057594037927936) = 7871841788680891 / 72057594037927936"
  by (subst fl_eval [where e = "- 4"]) (simp_all add: fl_eval_simps)

lemma fl_at_47: "fl (13743634982846541 / 72057594037927936) = 3435908745711635 / 18014398509481984"
  by (subst fl_eval [where e = "- 3"]) (simp_all add: fl_eval_simps)

lemma fl_at_48: "fl (10952904413752623 / 72057594037927936) = 684556525859539 / 4503599627370496"
  by (subst fl_eval [where e = "- 3"]) (simp_all add: fl_eval_simps)

lemma fl_at_49: "fl (10315419886498331 / 36028797018963968) = 2578854971624583 / 9007199254740992"
  by (subst fl_eval [where e = "- 2"]) (simp_all add: fl_eval_simps)

lemma fl_at_50: "fl (77147599866779 / 2251799813685248) = 77147599866779 / 2251799813685248"
  by (subst fl_eval [where e = "- 5"]) (simp_all add: fl_eval_simps)

lemma fl_at_51: "fl (4375997637928333 / 72057594037927936) = 4375997637928333 / 72057594037927936"
  by (subst fl_eval [where e = "- 5"]) (simp_all add: fl_eval_simps)

lemma fl_at_52: "fl (4375997637928333 / 144115188075855872) = 4375997637928333 / 144115188075855872"
  by (subst fl_eval [where e = "- 6"]) (simp_all add: fl_eval_simps)

lemmas fl_values = fl_at_1 fl_at_2 fl_at_3 fl_at_4 fl_at_5 fl_at_6 fl_at_7 fl_at_8 fl_at_9 fl_at_10 fl_at_11 fl_at_12 fl_at_13 fl_at_14 fl_at_15 fl_at_16 fl_at_17 fl_at_18 fl_at_19 fl_at_20 fl_at_21 fl_at_22 fl_at_23 fl_at_24 fl_at_25 fl_at_26 fl_at_27 fl_at_28 fl_at_29 fl_at_30 fl_at_31 fl_at_32 fl_at_33 fl_at_34 fl_at_35 fl_at_36 fl_at_37 fl_at_38 fl_at_39 fl_at_40 fl_at_41 fl_at_42 fl_at_43 fl_at_44 fl_at_45 fl_at_46 fl_at_47 fl_at_48 fl_at_49 fl_at_50 fl_at_51 fl_at_52

lemma fl_1 [simp]: "fl 1 = 1"
  by (rule fl_at_16)

lemma fl_11_10_ge_1: "1 \<le> fl (11 / 10)"
  using fl_mono [of 1 "11 / 10"] by simp

section \<open>Facts about the estimator in double precision\<close>

lemma squares64_zero_iff:
  "fl (dx * dx) + fl (dy * dy) = 0 \<longleftrightarrow> dx = 0 \<and> dy = 0"
proof -
  have a: "0 \<le> fl (dx * dx)" and b: "0 \<le> fl (dy * dy)"
    by (simp_all add: fl_nonneg)
  then have "fl (dx * dx) + fl (dy * dy) = 0 \<longleftrightarrow> fl (dx * dx) = 0 \<and> fl (dy * dy) = 0"
    by (simp add: add_nonneg_eq_0_iff)
  then show ?thesis by (simp add: fl_zero_iff)
qed

lemma distCalNormalized64_zero_iff:
  "distCalNormalized64 a b = 0 \<longleftrightarrow> x a = x b \<and> y a = y b"
  by (simp add: distCalNormalized64_def Let_def squares64_zero_iff fl_zero_iff)

lemma pixelsPerCm64_falsy_iff:
  "falsy_opt (pixelsPerCm64 c) \<longleftrightarrow>
     p1 c = None \<or> p2 c = None \<or> realWorldValueCm c = 0 \<or> p1 c = p2 c"
  by (auto simp: falsy_opt_def pixelsPerCm64_def Let_def div64_def squares64_zero_iff
      fl_zero_iff Point_eq_iff split: option.splits)

lemma estimateProject64_result:
  assumes "p1 (calibration s) = Some a" and "p2 (calibration s) = Some b" and "a \<noteq> b"
    and "realWorldValueCm (calibration s) \<noteq> 0" and "3 \<le> length (wallMask s)"
  shows "estimateProject64 s =
     Inr (Some
       \<lparr>area = toFixed 2 (areaM2_64 (wallMask s)
                 (cmPerNormalizedUnit64 a b (realWorldValueCm (calibration s)))),
        width = toFixed 1 (estWidthCm64 (wallMask s)
                 (cmPerNormalizedUnit64 a b (realWorldValueCm (calibration s)))),
        height = toFixed 1 (estHeightCm64 (wallMask s)
                 (cmPerNormalizedUnit64 a b (realWorldValueCm (calibration s)))),
        rolls = requiredRolls64 (swatchType s) (panoramaSpecs s) (individualRollSpecs s)
                 (estWidthCm64 (wallMask s)
                   (cmPerNormalizedUnit64 a b (realWorldValueCm (calibration s))))
                 (areaM2_64 (wallMask s)
                   (cmPerNormalizedUnit64 a b (realWorldValueCm (calibration s))))\<rparr>)"
proof -
  have "\<not> falsy_opt (pixelsPerCm64 (calibration s))"
    using assms by (simp add: pixelsPerCm64_falsy_iff)
  then show ?thesis
    using assms by (simp add: estimateProject64_def Let_def)
qed

lemma estimateProject64_Some_cases:
  assumes "estimateProject64 s = Inr (Some r)"
  obtains a b where "p1 (calibration s) = Some a" and "p2 (calibration s) = Some b"
    and "a \<noteq> b" and "realWorldValueCm (calibration s) \<noteq> 0" and "3 \<le> length (wallMask s)"
proof -
  from assms have g: "\<not> falsy_opt (pixelsPerCm64 (calibration s))" and l: "3 \<le> length (wallMask s)"
    by (auto simp: estimateProject64_def split: if_splits)
  from g obtain a b where "p1 (calibration s) = Some a" "p2 (calibration s) = Some b" "a \<noteq> b"
      "realWorldValueCm (calibration s) \<noteq> 0"
    by (auto simp: pixelsPerCm64_falsy_iff)
  with l that show thesis by blast
qed

lemma estimateProject64_rolls:
  assumes "estimateProject64 s = Inr (Some r)"
    and "p1 (calibration s) = Some a" and "p2 (calibration s) = Some b"
  shows "rolls r = requiredRolls64 (swatchType s) (panoramaSpecs s) (individualRollSpecs s)
           (estWidthCm64 (wallMask s) (cmPerNormalizedUnit64 a b (realWorldValueCm (calibration s))))
           (areaM2_64 (wallMask s) (cmPerNormalizedUnit64 a b (realWorldValueCm (calibration s))))"
  using assms by (auto simp: estimateProject64_def Let_def split: if_splits)

lemma cmPerNormalizedUnit64_Finite:
  "a \<noteq> b \<Longrightarrow> cmPerNormalizedUnit64 a b v = Finite (fl (v / distCalNormalized64 a b))"
  using distCalNormalized64_zero_iff [of a b]
  by (simp add: cmPerNormalizedUnit64_def div64_def Point_eq_iff)

lemma areaNormalized64_nonneg: "0 \<le> areaNormalized64 m"
  by (simp add: areaNormalized64_def fl_nonneg)

lemma areaM2_64_Finite:
  "areaM2_64 m (Finite c) = Finite (fl (fl (areaNormalized64 m * fl (c * c)) / 10000))"
  by (simp add: areaM2_64_def mul64_def div64_def)

text \<open>In double precision too, the estimator never throws and returns \<open>null\<close> in the
  same cases as in exact arithmetic.\<close>

lemma estimateProject64_no_result_iff:
  "(estimateProject64 s = Inr None \<longleftrightarrow>
      p1 (calibration s) = None \<or> p2 (calibration s) = None \<or>
      realWorldValueCm (calibration s) = 0 \<or> p1 (calibration s) = p2 (calibration s) \<or>
      length (wallMask s) < 3) \<and>
   (\<forall>e. estimateProject64 s \<noteq> Inl e)"
  unfolding estimateProject64_def
  by (auto simp: pixelsPerCm64_falsy_iff Let_def split: option.splits)

text \<open>So is the guard: when it passes, both calibration points are there, their rounded
  distance is not zero, and a result is returned; and for distinct points and a positive
  length the rounded scale factor is positive.\<close>

lemma estimateProject64_guard_safe:
  assumes "\<not> falsy_opt (pixelsPerCm64 (calibration s))" and "3 \<le> length (wallMask s)"
  shows "\<exists>a b. p1 (calibration s) = Some a \<and> p2 (calibration s) = Some b \<and>
           distCalNormalized64 a b \<noteq> 0 \<and> (\<exists>r. estimateProject64 s = Inr (Some r))"
proof -
  from assms(1) obtain a b where
    ab: "p1 (calibration s) = Some a" "p2 (calibration s) = Some b" and ne: "a \<noteq> b"
    and v: "realWorldValueCm (calibration s) \<noteq> 0"
    by (auto simp: pixelsPerCm64_falsy_iff)
  from ne have "distCalNormalized64 a b \<noteq> 0"
    by (simp add: distCalNormalized64_zero_iff Point_eq_iff)
  moreover from estimateProject64_result [OF ab ne v assms(2)]
  have "\<exists>r. estimateProject64 s = Inr (Some r)" by simp
  ultimately show ?thesis using ab by blast
qed

lemma distCalNormalized64_pos: "a \<noteq> b \<Longrightarrow> 0 < distCalNormalized64 a b"
proof -
  assume "a \<noteq> b"
  then have "distCalNormalized64 a b \<noteq> 0"
    by (simp add: distCalNormalized64_zero_iff Point_eq_iff)
  moreover have "0 \<le> distCalNormalized64 a b"
    by (simp add: distCalNormalized64_def Let_def fl_nonneg)
  ultimately show ?thesis by simp
qed

lemma cmPerNormalizedUnit64_scale:
  assumes "a \<noteq> b" and "0 < v"
  shows "cmPerNormalizedUnit64 a b v = Finite (fl (v / distCalNormalized64 a b)) \<and>
         0 < fl (v / distCalNormalized64 a b)"
  using assms distCalNormalized64_pos [of a b]
  by (simp add: cmPerNormalizedUnit64_Finite fl_pos)

section \<open>Invariance of the shoelace area\<close>

lemma foldl_shoelaceStep: "foldl (shoelaceStep m) acc [0..<k] = acc + (\<Sum>i<k. edgeTerm m i)"
  by (induction k) (simp_all add: shoelaceStep_def edgeTerm_def Let_def)

lemma shoelaceLoop_sum: "shoelaceLoop m = (\<Sum>i<length m. edgeTerm m i)"
  by (simp add: shoelaceLoop_def foldl_shoelaceStep)

lemma sum_shift_mod: "(\<Sum>i<Suc k. g (Suc i mod Suc k)) = (\<Sum>i<Suc k. (g i :: real))"
proof -
  have "(\<Sum>i<Suc k. g (Suc i mod Suc k)) = (\<Sum>i<k. g (Suc i mod Suc k)) + g 0"
    by simp
  also have "(\<Sum>i<k. g (Suc i mod Suc k)) = (\<Sum>i<k. g (Suc i))"
    by (rule sum.cong) auto
  also have "\<dots> + g 0 = g 0 + (\<Sum>i<k. g (Suc i))"
    by simp
  also have "\<dots> = (\<Sum>i<Suc k. g i)"
    by (rule sum.lessThan_Suc_shift [symmetric])
  finally show ?thesis .
qed

lemma edgeTerm_rotate1:
  assumes "i < length m"
  shows "edgeTerm (rotate1 m) i = edgeTerm m (Suc i mod length m)"
proof -
  from assms have "0 < length m" by (cases m) simp_all
  then have j: "Suc i mod length m < length m" by (rule mod_less_divisor)
  show ?thesis
    using assms j by (simp add: edgeTerm_def nth_rotate1)
qed

lemma shoelaceLoop_rotate1: "shoelaceLoop (rotate1 m) = shoelaceLoop m"
proof (cases "length m")
  case 0
  then show ?thesis by simp
next
  case (Suc k)
  have "shoelaceLoop (rotate1 m) = (\<Sum>i<length m. edgeTerm (rotate1 m) i)"
    by (simp add: shoelaceLoop_sum)
  also have "\<dots> = (\<Sum>i<length m. edgeTerm m (Suc i mod length m))"
    by (rule sum.cong) (simp_all add: edgeTerm_rotate1)
  also have "\<dots> = (\<Sum>i<length m. edgeTerm m i)"
    unfolding Suc by (rule sum_shift_mod)
  finally show ?thesis by (simp add: shoelaceLoop_sum)
qed

lemma shoelaceLoop_rotate: "shoelaceLoop (rotate k m) = shoelaceLoop m"
  by (induction k) (simp_all add: shoelaceLoop_rotate1)

lemma edgeTerm_rev:
  assumes "length m = Suc k" and "i < Suc k"
  shows "edgeTerm (rev m) i = - edgeTerm m (if i = k then k else k - Suc i)"
proof (cases "i = k")
  case True
  then show ?thesis using assms
    by (simp add: edgeTerm_def rev_nth)
next
  case False
  with assms have lt: "Suc i < Suc k" by simp
  then have "Suc i mod Suc k = Suc i" by simp
  moreover have "Suc (k - Suc i) mod Suc k = k - i" using lt by simp
  ultimately show ?thesis using assms lt False
    by (simp add: edgeTerm_def rev_nth Suc_diff_Suc)
qed

lemma shoelaceLoop_rev: "shoelaceLoop (rev m) = - shoelaceLoop m"
proof (cases "length m")
  case 0
  then show ?thesis by (simp add: shoelaceLoop_def)
next
  case (Suc k)
  have "shoelaceLoop (rev m) = (\<Sum>i<Suc k. edgeTerm (rev m) i)"
    by (simp add: shoelaceLoop_sum Suc)
  also have "\<dots> = (\<Sum>i<Suc k. - edgeTerm m (if i = k then k else k - Suc i))"
    by (rule sum.cong) (simp_all add: edgeTerm_rev[OF Suc])
  also have "\<dots> = - ((\<Sum>i<k. edgeTerm m (k - Suc i)) + edgeTerm m k)"
    by (simp add: sum_negf)
  also have "(\<Sum>i<k. edgeTerm m (k - Suc i)) = (\<Sum>i<k. edgeTerm m i)"
    by (rule sum.nat_diff_reindex)
  finally show ?thesis by (simp add: shoelaceLoop_sum Suc)
qed

lemma areaNormalized_rev: "areaNormalized (rev m) = areaNormalized m"
  by (simp add: areaNormalized_def shoelaceLoop_rev)

lemma areaNormalized_rotate: "areaNormalized (rotate k m) = areaNormalized m"
  by (simp add: areaNormalized_def shoelaceLoop_rotate)

lemma add_step_error:
  fixes k :: real
  assumes p: "\<bar>p\<bar> \<le> 1" and S: "\<bar>S\<bar> \<le> k" and e: "\<bar>acc - S\<bar> \<le> k * (k + 3) / 2 ^ 53"
    and k0: "0 \<le> k" and small: "k + 3 \<le> 2 ^ 53"
  shows "\<bar>fl (acc + fl p) - (S + p)\<bar> \<le> (k + 1) * (k + 4) / 2 ^ 53"
proof -
  define U :: real where "U = 2 ^ 53"
  have U: "0 < U" "1 \<le> U" by (simp_all add: U_def)
  note e' = e [folded U_def] and small' = small [folded U_def]
  have t: "\<bar>fl p - p\<bar> \<le> 1 / U"
  proof -
    have "\<bar>fl p - p\<bar> \<le> \<bar>p\<bar> / U" unfolding U_def by (rule fl_error)
    also have "\<dots> \<le> 1 / U" using p U by (simp add: divide_right_mono)
    finally show ?thesis .
  qed
  have e1: "k * (k + 3) / U \<le> k"
  proof -
    from small' k0 have "k * (k + 3) \<le> k * U" by (rule mult_left_mono)
    with U show ?thesis by (simp add: divide_le_eq)
  qed
  have u1: "1 / U \<le> 1" using U by simp
  have a: "\<bar>acc + fl p\<bar> \<le> 2 * k + 2"
  proof -
    have "\<bar>acc + fl p\<bar> \<le> \<bar>S\<bar> + \<bar>acc - S\<bar> + \<bar>p\<bar> + \<bar>fl p - p\<bar>" by linarith
    with S e' e1 p t u1 show ?thesis by linarith
  qed
  have r: "\<bar>fl (acc + fl p) - (acc + fl p)\<bar> \<le> (2 * k + 2) / U"
  proof -
    have "\<bar>fl (acc + fl p) - (acc + fl p)\<bar> \<le> \<bar>acc + fl p\<bar> / U"
      unfolding U_def by (rule fl_error)
    also have "\<dots> \<le> (2 * k + 2) / U" using a U by (simp add: divide_right_mono)
    finally show ?thesis .
  qed
  have "\<bar>fl (acc + fl p) - (S + p)\<bar> \<le>
      \<bar>fl (acc + fl p) - (acc + fl p)\<bar> + \<bar>acc - S\<bar> + \<bar>fl p - p\<bar>"
    by linarith
  also have "\<dots> \<le> (2 * k + 2) / U + k * (k + 3) / U + 1 / U"
    using r e' t by linarith
  also have "\<dots> = (k * k + 5 * k + 3) / U"
    by (simp add: add_divide_distrib [symmetric] algebra_simps)
  also have "\<dots> \<le> (k + 1) * (k + 4) / U"
    using U by (simp add: divide_right_mono algebra_simps)
  finally show ?thesis by (simp add: U_def)
qed

lemma sub_step_error:
  fixes k :: real
  assumes "\<bar>q\<bar> \<le> 1" and "\<bar>S\<bar> \<le> k" and "\<bar>acc - S\<bar> \<le> k * (k + 3) / 2 ^ 53"
    and "0 \<le> k" and "k + 3 \<le> 2 ^ 53"
  shows "\<bar>fl (acc - fl q) - (S - q)\<bar> \<le> (k + 1) * (k + 4) / 2 ^ 53"
  using add_step_error [of "- q" S k acc] assms by (simp add: fl_minus)

lemma unit_product:
  assumes "0 \<le> a" "a \<le> 1" "0 \<le> b" "b \<le> (1::real)"
  shows "\<bar>a * b\<bar> \<le> 1"
proof -
  from assms have "a * b \<le> 1 * 1" by (intro mult_mono) simp_all
  moreover from assms have "0 \<le> a * b" by simp
  ultimately show ?thesis by simp
qed

lemma shoelace64_partial_error:
  assumes coords: "\<forall>p\<in>set m. 0 \<le> x p \<and> x p \<le> 1 \<and> 0 \<le> y p \<and> y p \<le> 1"
    and small: "2 * real (length m) + 3 \<le> 2 ^ 53"
  shows "i \<le> length m \<Longrightarrow>
    \<bar>foldl (shoelaceStep64 m) 0 [0..<i] - (\<Sum>j<i. edgeTerm m j)\<bar>
        \<le> (2 * real i) * (2 * real i + 3) / 2 ^ 53 \<and>
    \<bar>\<Sum>j<i. edgeTerm m j\<bar> \<le> 2 * real i"
proof (induction i)
  case 0
  then show ?case by simp
next
  case (Suc i)
  then have i: "i < length m" by simp
  let ?j = "Suc i mod length m"
  let ?acc = "foldl (shoelaceStep64 m) 0 [0..<i]"
  let ?S = "\<Sum>j<i. edgeTerm m j"
  let ?p = "x (m ! i) * y (m ! ?j)"
  let ?q = "x (m ! ?j) * y (m ! i)"
  from Suc have ih: "\<bar>?acc - ?S\<bar> \<le> (2 * real i) * (2 * real i + 3) / 2 ^ 53"
    and S: "\<bar>?S\<bar> \<le> 2 * real i"
    by simp_all
  from i have "0 < length m" by (cases m) simp_all
  then have j: "?j < length m" by (rule mod_less_divisor)
  from i coords have ci: "0 \<le> x (m ! i)" "x (m ! i) \<le> 1" "0 \<le> y (m ! i)" "y (m ! i) \<le> 1"
    using nth_mem [of i m] by auto
  from j coords have cj: "0 \<le> x (m ! ?j)" "x (m ! ?j) \<le> 1" "0 \<le> y (m ! ?j)" "y (m ! ?j) \<le> 1"
    using nth_mem [of ?j m] by auto
  have p: "\<bar>?p\<bar> \<le> 1"
    using ci(1,2) cj(3,4) by (rule unit_product)
  have q: "\<bar>?q\<bar> \<le> 1"
    using cj(1,2) ci(3,4) by (rule unit_product)
  from i small have s1: "2 * real i + 3 \<le> 2 ^ 53" and s2: "(2 * real i + 1) + 3 \<le> 2 ^ 53"
    by simp_all
  have a1: "\<bar>fl (?acc + fl ?p) - (?S + ?p)\<bar> \<le> (2 * real i + 1) * (2 * real i + 4) / 2 ^ 53"
    by (rule add_step_error [OF p S ih _ s1]) simp
  have S1: "\<bar>?S + ?p\<bar> \<le> 2 * real i + 1"
    using S p by linarith
  have a2: "\<bar>fl (fl (?acc + fl ?p) - fl ?q) - (?S + ?p - ?q)\<bar>
      \<le> (2 * real i + 1 + 1) * (2 * real i + 1 + 4) / 2 ^ 53"
    using a1 by (intro sub_step_error [OF q S1 _ _ s2]) (simp_all add: algebra_simps)
  have step: "foldl (shoelaceStep64 m) 0 [0..<Suc i] = fl (fl (?acc + fl ?p) - fl ?q)"
    by (simp add: shoelaceStep64_def Let_def)
  have sum: "(\<Sum>j<Suc i. edgeTerm m j) = ?S + ?p - ?q"
    by (simp add: edgeTerm_def)
  have "\<bar>?S + ?p - ?q\<bar> \<le> 2 * real (Suc i)"
    using S1 q by simp
  moreover have "(2 * real i + 1 + 1) * (2 * real i + 1 + 4) = (2 * real (Suc i)) * (2 * real (Suc i) + 3)"
    by (simp add: algebra_simps)
  ultimately show ?case
    using a2 by (simp only: step sum)
qed

lemma areaNormalized64_error:
  assumes coords: "\<forall>p\<in>set m. 0 \<le> x p \<and> x p \<le> 1 \<and> 0 \<le> y p \<and> y p \<le> 1"
    and small: "2 * real (length m) + 3 \<le> 2 ^ 53"
  shows "\<bar>areaNormalized64 m - areaNormalized m\<bar>
    \<le> real (length m) * (2 * real (length m) + 5) / 2 ^ 53"
proof -
  define U :: real where "U = 2 ^ 53"
  define n where "n = real (length m)"
  define acc where "acc = shoelaceLoop64 m"
  define S where "S = shoelaceLoop m"
  have U: "0 < U" by (simp add: U_def)
  have n0: "0 \<le> n" by (simp add: n_def)
  from shoelace64_partial_error [OF coords small, of "length m"]
  have err: "\<bar>acc - S\<bar> \<le> (2 * n) * (2 * n + 3) / U" and Sb: "\<bar>S\<bar> \<le> 2 * n"
    by (simp_all add: acc_def S_def shoelaceLoop64_def shoelaceLoop_sum n_def U_def)
  from small have small': "2 * n + 3 \<le> U" by (simp add: n_def U_def)
  have e1: "(2 * n) * (2 * n + 3) / U \<le> 2 * n"
  proof -
    from small' n0 have "(2 * n) * (2 * n + 3) \<le> (2 * n) * U"
      by (intro mult_left_mono) simp_all
    with U show ?thesis by (simp add: divide_le_eq)
  qed
  have accb: "\<bar>acc\<bar> / 2 \<le> 2 * n"
    using err e1 Sb by linarith
  have r: "\<bar>fl (\<bar>acc\<bar> / 2) - \<bar>acc\<bar> / 2\<bar> \<le> 2 * n / U"
  proof -
    have "\<bar>fl (\<bar>acc\<bar> / 2) - \<bar>acc\<bar> / 2\<bar> \<le> \<bar>\<bar>acc\<bar> / 2\<bar> / U"
      unfolding U_def by (rule fl_error)
    also have "\<dots> \<le> 2 * n / U"
    proof (rule divide_right_mono)
      from accb show "\<bar>\<bar>acc\<bar> / 2\<bar> \<le> 2 * n" by simp
      from U show "0 \<le> U" by simp
    qed
    finally show ?thesis .
  qed
  define E where "E = (2 * n) * (2 * n + 3) / U"
  have h: "\<bar>\<bar>acc\<bar> / 2 - \<bar>S\<bar> / 2\<bar> \<le> E / 2"
    using err unfolding E_def [symmetric] by linarith
  have "\<bar>fl (\<bar>acc\<bar> / 2) - \<bar>S\<bar> / 2\<bar> \<le> 2 * n / U + E / 2"
    using r h by linarith
  also have "\<dots> = 2 * n / U + (2 * n) * (2 * n + 3) / U / 2"
    by (simp add: E_def)
  also have "\<dots> = n * (2 * n + 5) / U"
    using U by (simp add: field_simps)
  finally show ?thesis
    by (simp add: areaNormalized64_def areaNormalized_def acc_def S_def n_def U_def)
qed

text \<open>
  Claim C5, as stated, fails: the program adds the products in the order of the sequence and
  rounds each sum, and for the triangle clicked at (284, 55), (231, 426), (338, 227) the
  area computed from the second vertex differs from the one computed from the first.
\<close>

theorem shoelace_area_rotation_differs:
  "length triangleMask = 3 \<and>
   areaNormalized64 triangleMask = 4375997637928329 / 144115188075855872 \<and>
   areaNormalized64 (rotate 1 triangleMask) = 4375997637928333 / 144115188075855872 \<and>
   areaNormalized64 (rotate 1 triangleMask) \<noteq> areaNormalized64 triangleMask"
proof -
  have a: "areaNormalized64 triangleMask = 4375997637928329 / 144115188075855872"
    by (simp add: triangleMask_def areaNormalized64_def shoelaceLoop64_def shoelaceStep64_def
        shoelace_upt3 Let_def fl_minus fl_values)
  have r: "rotate 1 triangleMask =
      [\<lparr>x = fl (231 / 800), y = fl (426 / 600)\<rparr>, \<lparr>x = fl (338 / 800), y = fl (227 / 600)\<rparr>,
       \<lparr>x = fl (284 / 800), y = fl (55 / 600)\<rparr>]"
    by (simp add: triangleMask_def rotate_def)
  have b: "areaNormalized64 (rotate 1 triangleMask) = 4375997637928333 / 144115188075855872"
    unfolding r
    by (simp add: areaNormalized64_def shoelaceLoop64_def shoelaceStep64_def
        shoelace_upt3 Let_def fl_minus fl_values)
  have ne: "areaNormalized64 (rotate 1 triangleMask) \<noteq> areaNormalized64 triangleMask"
    by (simp only: a b)
  have len: "length triangleMask = 3"
    by (simp add: triangleMask_def)
  from len a b ne show ?thesis by (intro conjI)
qed

text \<open>
  Claim C5, amended: for a sequence of \<open>n\<close> points with coordinates between 0 and 1
  (and \<open>2 n + 3 \<le> 2^53\<close>), the shoelace area that the program computes differs from the
  exact shoelace area by at most \<open>n (2 n + 5) / 2^53\<close>; the exact area is unchanged when
  the sequence is reversed or rotated, so the computed areas of a sequence and of its
  reversal, or of a rotation of it, differ by at most \<open>n (2 n + 5) / 2^52\<close>.
\<close>

theorem shoelace_area_invariant:
  assumes "\<forall>p\<in>set m. 0 \<le> x p \<and> x p \<le> 1 \<and> 0 \<le> y p \<and> y p \<le> 1"
    and "2 * real (length m) + 3 \<le> 2 ^ 53"
  shows "\<bar>areaNormalized64 m - areaNormalized m\<bar>
           \<le> real (length m) * (2 * real (length m) + 5) / 2 ^ 53 \<and>
         areaNormalized (rev m) = areaNormalized m \<and>
         areaNormalized (rotate k m) = areaNormalized m \<and>
         \<bar>areaNormalized64 (rev m) - areaNormalized64 m\<bar>
           \<le> real (length m) * (2 * real (length m) + 5) / 2 ^ 52 \<and>
         \<bar>areaNormalized64 (rotate k m) - areaNormalized64 m\<bar>
           \<le> real (length m) * (2 * real (length m) + 5) / 2 ^ 52"
proof -
  let ?B = "real (length m) * (2 * real (length m) + 5) / 2 ^ 53"
  have B2: "real (length m) * (2 * real (length m) + 5) / 2 ^ 52 = ?B + ?B"
    by simp
  have e: "\<bar>areaNormalized64 m - areaNormalized m\<bar> \<le> ?B"
    using assms by (rule areaNormalized64_error)
  have "\<bar>areaNormalized64 (rev m) - areaNormalized (rev m)\<bar>
      \<le> real (length (rev m)) * (2 * real (length (rev m)) + 5) / 2 ^ 53"
    using assms by (intro areaNormalized64_error) simp_all
  then have er: "\<bar>areaNormalized64 (rev m) - areaNormalized m\<bar> \<le> ?B"
    by (simp add: areaNormalized_rev)
  have "\<bar>areaNormalized64 (rotate k m) - areaNormalized (rotate k m)\<bar>
      \<le> real (length (rotate k m)) * (2 * real (length (rotate k m)) + 5) / 2 ^ 53"
    using assms by (intro areaNormalized64_error) simp_all
  then have eo: "\<bar>areaNormalized64 (rotate k m) - areaNormalized m\<bar> \<le> ?B"
    by (simp add: areaNormalized_rotate)
  have "\<bar>areaNormalized64 (rev m) - areaNormalized64 m\<bar> \<le> ?B + ?B"
    using e er by linarith
  moreover have "\<bar>areaNormalized64 (rotate k m) - areaNormalized64 m\<bar> \<le> ?B + ?B"
    using e eo by linarith
  ultimately show ?thesis
    using e by (simp only: B2 areaNormalized_rev areaNormalized_rotate)
qed

theorem shoelace_area_invariant_witness:
  "2 * real (length triangleMask) + 3 \<le> 2 ^ 53 \<and>
   \<bar>areaNormalized64 triangleMask - areaNormalized triangleMask\<bar> \<le> 33 / 2 ^ 53 \<and>
   areaNormalized (rev triangleMask) = areaNormalized triangleMask \<and>
   areaNormalized (rotate 1 triangleMask) = areaNormalized triangleMask \<and>
   \<bar>areaNormalized64 (rev triangleMask) - areaNormalized64 triangleMask\<bar> \<le> 33 / 2 ^ 52 \<and>
   \<bar>areaNormalized64 (rotate 1 triangleMask) - areaNormalized64 triangleMask\<bar> \<le> 33 / 2 ^ 52"
proof -
  have c: "\<forall>p\<in>set triangleMask. 0 \<le> x p \<and> x p \<le> 1 \<and> 0 \<le> y p \<and> y p \<le> 1"
    by (simp add: triangleMask_def fl_values)
  have n: "2 * real (length triangleMask) + 3 \<le> 2 ^ 53"
    by (simp add: triangleMask_def)
  have l: "real (length triangleMask) * (2 * real (length triangleMask) + 5) = 33"
    by (simp add: triangleMask_def)
  from shoelace_area_invariant [OF c n, of 1] n show ?thesis
    by (simp only: l)
qed

section \<open>Roll counts\<close>

text \<open>
  Claim C3: for a mural, the roll count is the ceiling of the wall's width (the horizontal
  extent of the mask times the scale factor) over the roll width, each as the program
  computes it; two mural states with the same calibration, roll width and horizontal extent
  get the same count, whatever their wall areas, wall heights and design heights.
\<close>

theorem panorama_rolls_width_only:
  assumes "swatchType s = PANORAMA" and "swatchType s' = PANORAMA"
    and "calibration s' = calibration s"
    and "rollWidthCm (panoramaSpecs s') = rollWidthCm (panoramaSpecs s)"
    and "sub64 (Math_max (map x (wallMask s'))) (Math_min (map x (wallMask s'))) =
         sub64 (Math_max (map x (wallMask s))) (Math_min (map x (wallMask s)))"
    and "p1 (calibration s) = Some a" and "p2 (calibration s) = Some b"
    and "estimateProject64 s = Inr (Some r)" and "estimateProject64 s' = Inr (Some r')"
  shows "rolls r =
           js_ceil (div64
             (mul64 (sub64 (Math_max (map x (wallMask s))) (Math_min (map x (wallMask s))))
                (cmPerNormalizedUnit64 a b (realWorldValueCm (calibration s))))
             (Finite (rollWidthCm (panoramaSpecs s)))) \<and>
         rolls r' = rolls r"
proof -
  have "rolls r = requiredRolls64 PANORAMA (panoramaSpecs s) (individualRollSpecs s)
           (estWidthCm64 (wallMask s) (cmPerNormalizedUnit64 a b (realWorldValueCm (calibration s))))
           (areaM2_64 (wallMask s) (cmPerNormalizedUnit64 a b (realWorldValueCm (calibration s))))"
    using estimateProject64_rolls [OF assms(8) assms(6) assms(7)] assms(1) by simp
  moreover have "rolls r' = requiredRolls64 PANORAMA (panoramaSpecs s') (individualRollSpecs s')
           (estWidthCm64 (wallMask s') (cmPerNormalizedUnit64 a b (realWorldValueCm (calibration s))))
           (areaM2_64 (wallMask s') (cmPerNormalizedUnit64 a b (realWorldValueCm (calibration s))))"
    using estimateProject64_rolls [OF assms(9), of a b] assms(2,3,6,7) by simp
  ultimately show ?thesis
    using assms(4,5) by (simp add: requiredRolls64_def estWidthCm64_def)
qed

lemma sqrt_mural: "sqrt (1521 / 1048576) = 39 / 1024"
  by (rule real_sqrt_unique) (simp_all add: power2_eq_square)

lemma mural_cm:
  "cmPerNormalizedUnit64 \<lparr>x = 0, y = 0\<rparr> \<lparr>x = 39 / 1024, y = 0\<rparr> 210 =
     Finite (3031268979960911 / 549755813888)"
  by (simp add: cmPerNormalizedUnit64_def distCalNormalized64_def div64_def Let_def fl_minus
      fl_values sqrt_mural)

lemma muralA_rolls:
  "requiredRolls64 PANORAMA (panoramaSpecs muralStateA) (individualRollSpecs muralStateA)
     (estWidthCm64 (wallMask muralStateA) (Finite (3031268979960911 / 549755813888))) aM2 =
   Finite 4"
  by (simp add: requiredRolls64_def estWidthCm64_def muralStateA_def initialState_def
      Math_min_def Math_max_def sub64_def mul64_def div64_def fl_values)

lemma muralB_rolls:
  "requiredRolls64 PANORAMA (panoramaSpecs muralStateB) (individualRollSpecs muralStateB)
     (estWidthCm64 (wallMask muralStateB) (Finite (3031268979960911 / 549755813888))) aM2 =
   Finite 4"
  by (simp add: requiredRolls64_def estWidthCm64_def muralStateB_def initialState_def
      Math_min_def Math_max_def sub64_def mul64_def div64_def fl_values)

theorem panorama_rolls_width_only_witness:
  "swatchType muralStateA = PANORAMA \<and> swatchType muralStateB = PANORAMA \<and>
   calibration muralStateB = calibration muralStateA \<and>
   rollWidthCm (panoramaSpecs muralStateB) = rollWidthCm (panoramaSpecs muralStateA) \<and>
   designHeightCm (panoramaSpecs muralStateB) \<noteq> designHeightCm (panoramaSpecs muralStateA) \<and>
   areaNormalized64 (wallMask muralStateB) \<noteq> areaNormalized64 (wallMask muralStateA) \<and>
   Math_max (map y (wallMask muralStateB)) \<noteq> Math_max (map y (wallMask muralStateA)) \<and>
   (\<exists>r r'. estimateProject64 muralStateA = Inr (Some r) \<and>
      estimateProject64 muralStateB = Inr (Some r') \<and>
      rolls r = Finite 4 \<and> rolls r' = rolls r)"
proof -
  let ?a = "\<lparr>x = 0, y = 0\<rparr>" and ?b = "\<lparr>x = 39 / 1024, y = 0\<rparr>"
  have st: "swatchType muralStateA = PANORAMA" "swatchType muralStateB = PANORAMA"
      "calibration muralStateB = calibration muralStateA"
      "rollWidthCm (panoramaSpecs muralStateB) = rollWidthCm (panoramaSpecs muralStateA)"
      "p1 (calibration muralStateA) = Some ?a" "p2 (calibration muralStateA) = Some ?b"
      "realWorldValueCm (calibration muralStateA) = 210"
      "3 \<le> length (wallMask muralStateA)" "3 \<le> length (wallMask muralStateB)"
    by (simp_all add: muralStateA_def muralStateB_def initialState_def)
  have ne: "?a \<noteq> ?b" by simp
  have ext: "sub64 (Math_max (map x (wallMask muralStateB)))
        (Math_min (map x (wallMask muralStateB))) =
      sub64 (Math_max (map x (wallMask muralStateA)))
        (Math_min (map x (wallMask muralStateA)))"
    by (simp add: muralStateA_def muralStateB_def Math_min_def Math_max_def sub64_def fl_values)
  have d: "designHeightCm (panoramaSpecs muralStateB) \<noteq>
      designHeightCm (panoramaSpecs muralStateA)"
    by (simp add: muralStateA_def muralStateB_def initialState_def)
  have arA: "areaNormalized64 (wallMask muralStateA) = 39 / 4096"
    by (simp add: muralStateA_def areaNormalized64_def shoelaceLoop64_def shoelaceStep64_def
        shoelace_upt4 Let_def fl_minus fl_values)
  have arB: "areaNormalized64 (wallMask muralStateB) = 117 / 8192"
    by (simp add: muralStateB_def areaNormalized64_def shoelaceLoop64_def shoelaceStep64_def
        shoelace_upt3 Let_def fl_minus fl_values)
  have ar: "areaNormalized64 (wallMask muralStateB) \<noteq> areaNormalized64 (wallMask muralStateA)"
    by (simp add: arA arB)
  have hy: "Math_max (map y (wallMask muralStateB)) \<noteq> Math_max (map y (wallMask muralStateA))"
    by (simp add: muralStateA_def muralStateB_def Math_max_def)
  let ?cm = "cmPerNormalizedUnit64 ?a ?b (realWorldValueCm (calibration muralStateA))"
  have cm: "?cm = Finite (3031268979960911 / 549755813888)"
    by (simp add: st(7) mural_cm)
  have nz: "realWorldValueCm (calibration muralStateA) \<noteq> 0"
    by (simp add: st(7))
  note rA = estimateProject64_result [OF st(5) st(6) ne nz st(8)]
  have stB: "p1 (calibration muralStateB) = Some ?a" "p2 (calibration muralStateB) = Some ?b"
      "realWorldValueCm (calibration muralStateB) \<noteq> 0"
    by (simp_all add: st(3,5,6,7))
  note rB = estimateProject64_result [OF stB(1) stB(2) ne stB(3) st(9)]
  note th = panorama_rolls_width_only [OF st(1,2,3,4) ext st(5,6) rA rB]
  have "rolls \<lparr>area = toFixed 2 (areaM2_64 (wallMask muralStateA) ?cm),
        width = toFixed 1 (estWidthCm64 (wallMask muralStateA) ?cm),
        height = toFixed 1 (estHeightCm64 (wallMask muralStateA) ?cm),
        rolls = requiredRolls64 (swatchType muralStateA) (panoramaSpecs muralStateA)
          (individualRollSpecs muralStateA) (estWidthCm64 (wallMask muralStateA) ?cm)
          (areaM2_64 (wallMask muralStateA) ?cm)\<rparr> = Finite 4"
    by (simp add: st(1) cm muralA_rolls)
  with th rA rB have "\<exists>r r'. estimateProject64 muralStateA = Inr (Some r) \<and>
      estimateProject64 muralStateB = Inr (Some r') \<and>
      rolls r = Finite 4 \<and> rolls r' = rolls r"
    by blast
  with st(1,2,3,4) d ar hy show ?thesis by blast
qed

text \<open>
  Claim C4, amended: for a roll whose area \<open>(widthCm / 100) * lengthM\<close>, as computed, is
  positive, the count for separate rolls is the ceiling of \<open>areaM2 * 1.1\<close> over the roll
  area, each operation rounded to a double; it does not decrease when \<open>areaM2\<close> grows, and
  for a double \<open>areaM2 \<ge> 0\<close> it is at least the ceiling of \<open>areaM2\<close> over the roll area.
  This is the count the estimator returns for separate rolls, at the area (a double, not
  negative) that it reports rounded to two decimals.
\<close>

theorem individual_rolls_monotone:
  assumes "0 < fl (fl (widthCm rs / 100) * lengthM rs)"
  shows "requiredRolls64 INDIVIDUAL ps rs w (Finite a) =
           Finite (of_int \<lceil>fl (fl (a * fl (11 / 10)) / fl (fl (widthCm rs / 100) * lengthM rs))\<rceil>) \<and>
         (\<forall>a'. a \<le> a' \<longrightarrow>
            js_le (requiredRolls64 INDIVIDUAL ps rs w (Finite a))
                  (requiredRolls64 INDIVIDUAL ps rs w (Finite a'))) \<and>
         (0 \<le> a \<and> fl a = a \<longrightarrow>
            js_le (js_ceil (div64 (Finite a) (Finite (fl (fl (widthCm rs / 100) * lengthM rs)))))
                  (requiredRolls64 INDIVIDUAL ps rs w (Finite a))) \<and>
         (swatchType s = INDIVIDUAL \<and> individualRollSpecs s = rs \<and>
          estimateProject64 s = Inr (Some r) \<longrightarrow>
            (\<exists>A W. 0 \<le> A \<and> fl A = A \<and> area r = toFixed 2 (Finite A) \<and>
               rolls r = requiredRolls64 INDIVIDUAL (panoramaSpecs s) rs W (Finite A)))"
proof -
  let ?R = "fl (fl (widthCm rs / 100) * lengthM rs)"
  let ?c = "fl (11 / 10)"
  from assms have ne: "?R \<noteq> 0" by (rule less_imp_neq [THEN not_sym])
  have c0: "0 \<le> ?c" using fl_11_10_ge_1 by linarith
  have eq: "requiredRolls64 INDIVIDUAL ps rs w (Finite t) =
      Finite (of_int \<lceil>fl (fl (t * ?c) / ?R)\<rceil>)" for t
    using ne by (simp add: requiredRolls64_def Let_def mul64_def div64_def)
  have mono: "js_le (requiredRolls64 INDIVIDUAL ps rs w (Finite a))
      (requiredRolls64 INDIVIDUAL ps rs w (Finite a'))" if "a \<le> a'" for a'
  proof -
    from that c0 have "a * ?c \<le> a' * ?c" by (rule mult_right_mono)
    then have "fl (a * ?c) \<le> fl (a' * ?c)" by (rule fl_mono)
    with assms have "fl (a * ?c) / ?R \<le> fl (a' * ?c) / ?R"
      by (simp add: divide_right_mono)
    then have "fl (fl (a * ?c) / ?R) \<le> fl (fl (a' * ?c) / ?R)" by (rule fl_mono)
    then have "\<lceil>fl (fl (a * ?c) / ?R)\<rceil> \<le> \<lceil>fl (fl (a' * ?c) / ?R)\<rceil>"
      by (rule ceiling_mono)
    then show ?thesis by (simp only: eq js_le.simps of_int_le_iff)
  qed
  have low: "js_le (js_ceil (div64 (Finite a) (Finite ?R)))
      (requiredRolls64 INDIVIDUAL ps rs w (Finite a))" if "0 \<le> a" "fl a = a"
  proof -
    from that(1) fl_11_10_ge_1 have "a * 1 \<le> a * ?c" by (intro mult_left_mono)
    then have "fl a \<le> fl (a * ?c)" by (intro fl_mono) simp
    with that(2) have "a \<le> fl (a * ?c)" by simp
    with assms have "a / ?R \<le> fl (a * ?c) / ?R"
      by (simp add: divide_right_mono)
    then have "fl (a / ?R) \<le> fl (fl (a * ?c) / ?R)" by (rule fl_mono)
    then have "\<lceil>fl (a / ?R)\<rceil> \<le> \<lceil>fl (fl (a * ?c) / ?R)\<rceil>"
      by (rule ceiling_mono)
    then show ?thesis
      using ne by (simp add: eq div64_def)
  qed
  have link: "\<exists>A W. 0 \<le> A \<and> fl A = A \<and> area r = toFixed 2 (Finite A) \<and>
      rolls r = requiredRolls64 INDIVIDUAL (panoramaSpecs s) rs W (Finite A)"
    if "swatchType s = INDIVIDUAL" "individualRollSpecs s = rs" "estimateProject64 s = Inr (Some r)"
  proof -
    from that(3) obtain p q where pq: "p1 (calibration s) = Some p" "p2 (calibration s) = Some q"
        "p \<noteq> q" "realWorldValueCm (calibration s) \<noteq> 0" "3 \<le> length (wallMask s)"
      by (rule estimateProject64_Some_cases)
    let ?k = "fl (realWorldValueCm (calibration s) / distCalNormalized64 p q)"
    let ?A = "fl (fl (areaNormalized64 (wallMask s) * fl (?k * ?k)) / 10000)"
    have cm: "cmPerNormalizedUnit64 p q (realWorldValueCm (calibration s)) = Finite ?k"
      using pq(3) by (rule cmPerNormalizedUnit64_Finite)
    have "0 \<le> fl (?k * ?k)"
      by (rule fl_nonneg) simp
    then have "0 \<le> areaNormalized64 (wallMask s) * fl (?k * ?k)"
      by (intro mult_nonneg_nonneg areaNormalized64_nonneg)
    then have "0 \<le> fl (areaNormalized64 (wallMask s) * fl (?k * ?k)) / 10000"
      by (simp add: fl_nonneg)
    then have "0 \<le> ?A" by (rule fl_nonneg)
    moreover have "fl ?A = ?A" by simp
    moreover have "area r = toFixed 2 (Finite ?A)"
      and "rolls r = requiredRolls64 INDIVIDUAL (panoramaSpecs s) rs
             (estWidthCm64 (wallMask s) (Finite ?k)) (Finite ?A)"
      using estimateProject64_result [OF pq] that
      by (simp_all add: cm areaM2_64_Finite)
    ultimately show ?thesis by blast
  qed
  from eq mono low link show ?thesis by blast
qed

theorem individual_rolls_monotone_witness:
  "(0::real) < fl (fl (widthCm wideRoll / 100) * lengthM wideRoll) \<and>
   requiredRolls64 INDIVIDUAL (panoramaSpecs initialState) wideRoll (Finite 50) (Finite 100)
     = Finite 12 \<and>
   js_le (requiredRolls64 INDIVIDUAL (panoramaSpecs initialState) wideRoll (Finite 50) (Finite 100))
         (requiredRolls64 INDIVIDUAL (panoramaSpecs initialState) wideRoll (Finite 50) (Finite 200)) \<and>
   js_ceil (div64 (Finite 100) (Finite (fl (fl (widthCm wideRoll / 100) * lengthM wideRoll))))
     = Finite 10 \<and>
   js_le (js_ceil (div64 (Finite 100) (Finite (fl (fl (widthCm wideRoll / 100) * lengthM wideRoll)))))
         (requiredRolls64 INDIVIDUAL (panoramaSpecs initialState) wideRoll (Finite 50) (Finite 100)) \<and>
   (\<exists>r. estimateProject64 (muralStateA\<lparr>swatchType := INDIVIDUAL\<rparr>) = Inr (Some r) \<and>
      (\<exists>A W. 0 \<le> A \<and> fl A = A \<and> area r = toFixed 2 (Finite A) \<and>
         rolls r = requiredRolls64 INDIVIDUAL
           (panoramaSpecs (muralStateA\<lparr>swatchType := INDIVIDUAL\<rparr>))
           (individualRollSpecs (muralStateA\<lparr>swatchType := INDIVIDUAL\<rparr>)) W (Finite A)))"
proof -
  have R: "fl (fl (widthCm wideRoll / 100) * lengthM wideRoll) = 10"
    by (simp add: wideRoll_def fl_values)
  have pos: "(0::real) < fl (fl (widthCm wideRoll / 100) * lengthM wideRoll)"
    by (simp add: R)
  have f100: "fl 100 = 100"
    using fl_of_int [of 100] by simp
  note th = individual_rolls_monotone [OF pos, of "panoramaSpecs initialState" "Finite 50" 100]
  from th [THEN conjunct1]
  have e: "requiredRolls64 INDIVIDUAL (panoramaSpecs initialState) wideRoll
      (Finite 50) (Finite 100) = Finite 12"
    by (simp add: R fl_values)
  from th [THEN conjunct2, THEN conjunct1, rule_format, of 200] have m: "js_le (requiredRolls64 INDIVIDUAL (panoramaSpecs initialState) wideRoll
        (Finite 50) (Finite 100))
      (requiredRolls64 INDIVIDUAL (panoramaSpecs initialState) wideRoll (Finite 50) (Finite 200))"
    by simp
  have c: "js_ceil (div64 (Finite 100) (Finite (fl (fl (widthCm wideRoll / 100) * lengthM wideRoll))))
      = Finite 10"
    by (simp add: R div64_def fl_values)
  from th [THEN conjunct2, THEN conjunct2, THEN conjunct1, rule_format] f100
  have l: "js_le (js_ceil (div64 (Finite 100)
        (Finite (fl (fl (widthCm wideRoll / 100) * lengthM wideRoll)))))
      (requiredRolls64 INDIVIDUAL (panoramaSpecs initialState) wideRoll (Finite 50) (Finite 100))"
    by simp
  let ?s = "muralStateA\<lparr>swatchType := INDIVIDUAL\<rparr>"
  have st: "p1 (calibration ?s) = Some \<lparr>x = 0, y = 0\<rparr>"
      "p2 (calibration ?s) = Some \<lparr>x = 39 / 1024, y = 0\<rparr>"
      "realWorldValueCm (calibration ?s) \<noteq> 0"
      "3 \<le> length (wallMask ?s)"
      "swatchType ?s = INDIVIDUAL"
    by (simp_all add: muralStateA_def initialState_def)
  have ne: "\<lparr>x = 0, y = 0\<rparr> \<noteq> \<lparr>x = 39 / 1024, y = (0::real)\<rparr>" by simp
  note res = estimateProject64_result [OF st(1) st(2) ne st(3) st(4)]
  have pos': "(0::real) < fl (fl (widthCm (individualRollSpecs ?s) / 100) *
      lengthM (individualRollSpecs ?s))"
    by (intro fl_pos mult_pos_pos) (simp_all add: muralStateA_def initialState_def)
  from individual_rolls_monotone [OF pos', of _ _ _ ?s] st(5) res
  have k: "\<exists>r. estimateProject64 (muralStateA\<lparr>swatchType := INDIVIDUAL\<rparr>) = Inr (Some r) \<and>
      (\<exists>A W. 0 \<le> A \<and> fl A = A \<and> area r = toFixed 2 (Finite A) \<and>
         rolls r = requiredRolls64 INDIVIDUAL
           (panoramaSpecs (muralStateA\<lparr>swatchType := INDIVIDUAL\<rparr>))
           (individualRollSpecs (muralStateA\<lparr>swatchType := INDIVIDUAL\<rparr>)) W (Finite A))"
    by blast
  from pos e m c l k show ?thesis by (intro conjI)
qed

text \<open>
  Claim C4, as stated for every fixed roll, fails for a roll of negative area: with a width of
  \<open>-53\<close> and a length of \<open>10\<close> the count falls from \<open>0\<close> to \<open>-2\<close> when
  \<open>areaM2\<close> grows from \<open>0\<close> to \<open>10\<close>, and it is below the ceiling of
  \<open>areaM2 / rollAreaM2\<close>, which is \<open>-1\<close>.
\<close>

theorem individual_rolls_negative_width:
  "(0::real) \<le> 10 \<and> fl 10 = 10 \<and>
   requiredRolls64 INDIVIDUAL (panoramaSpecs initialState) negativeWidthRoll (Finite 0) (Finite 0)
     = Finite 0 \<and>
   requiredRolls64 INDIVIDUAL (panoramaSpecs initialState) negativeWidthRoll (Finite 0) (Finite 10)
     = Finite (- 2) \<and>
   \<not> js_le
      (requiredRolls64 INDIVIDUAL (panoramaSpecs initialState) negativeWidthRoll (Finite 0) (Finite 0))
      (requiredRolls64 INDIVIDUAL (panoramaSpecs initialState) negativeWidthRoll (Finite 0) (Finite 10)) \<and>
   \<not> js_le
      (js_ceil (div64 (Finite 10)
         (Finite (fl (fl (widthCm negativeWidthRoll / 100) * lengthM negativeWidthRoll)))))
      (requiredRolls64 INDIVIDUAL (panoramaSpecs initialState) negativeWidthRoll (Finite 0) (Finite 10))"
proof -
  have R: "fl (fl (widthCm negativeWidthRoll / 100) * lengthM negativeWidthRoll) =
      - (1491817376566477 / 281474976710656)"
    by (simp add: negativeWidthRoll_def fl_minus fl_values)
  have r0: "requiredRolls64 INDIVIDUAL (panoramaSpecs initialState) negativeWidthRoll
      (Finite 0) (Finite 0) = Finite 0"
    by (simp add: requiredRolls64_def mul64_def div64_def R)
  have r10: "requiredRolls64 INDIVIDUAL (panoramaSpecs initialState) negativeWidthRoll
      (Finite 0) (Finite 10) = Finite (- 2)"
    by (simp add: requiredRolls64_def mul64_def div64_def R fl_minus fl_values)
  have c10: "js_ceil (div64 (Finite 10)
      (Finite (fl (fl (widthCm negativeWidthRoll / 100) * lengthM negativeWidthRoll)))) =
      Finite (- 1)"
    by (simp add: div64_def R fl_minus fl_values)
  show ?thesis
    by (simp add: r0 r10 c10 fl_values)
qed

section \<open>The compositing call\<close>







end
